theory Spec2Isabelle
  imports Main "HOL-Library.Sublist" "HOL-Library.AList" "HOL-Library.Char_ord"
    "HOL-Library.List_Lexorder" "HOL-Library.Word"
begin

section \<open>Python values, errors and text\<close>

text \<open>
  The exceptions the modelled code raises. A function of the source that can raise
  returns \<open>error + 'a\<close>, with \<open>Inl\<close> for the exception; messages are dropped.
  \<open>ExternalError\<close> stands for an exception raised by a collaborator outside the
  repository (the GPU device, a shader subclass), \<open>UndefinedError\<close> for the template
  engine's \<open>jinja2.UndefinedError\<close>.
\<close>

datatype error =
    TypeError | ValueError | AssertionError | AttributeError | KeyError
  | IndexError | RuntimeError | UnboundLocalError | ZeroDivisionError | UndefinedError
  | ExternalError

text \<open>
  Source text is a \<open>string\<close> whose characters are the code points U+0000 to U+00FF.
  \<open>isspace\<close> is Python's \<open>str.isspace\<close> on that range (the characters
  \<open>str.strip\<close> removes and the regular expression class \<open>\s\<close> matches);
  \<open>is_linebreak\<close> lists the line boundaries of \<open>str.splitlines\<close>;
  \<open>is_word\<close> is the class \<open>\w\<close> (alphanumeric or underscore) on that range.
\<close>

definition isspace :: "char \<Rightarrow> bool" where
  "isspace c = (c \<in> set [CHR 0x09, CHR 0x0A, CHR 0x0B, CHR 0x0C, CHR 0x0D,
                           CHR 0x1C, CHR 0x1D, CHR 0x1E, CHR 0x1F, CHR 0x20,
                           CHR 0x85, CHR 0xA0])"

definition is_linebreak :: "char \<Rightarrow> bool" where
  "is_linebreak c = (c \<in> set [CHR 0x0A, CHR 0x0B, CHR 0x0C, CHR 0x0D,
                                CHR 0x1C, CHR 0x1D, CHR 0x1E, CHR 0x85])"

definition is_word :: "char \<Rightarrow> bool" where
  "is_word c =
     ((CHR ''a'' \<le> c \<and> c \<le> CHR ''z'') \<or> (CHR ''A'' \<le> c \<and> c \<le> CHR ''Z'') \<or>
      (CHR ''0'' \<le> c \<and> c \<le> CHR ''9'') \<or> c = CHR ''_'' \<or>
      c \<in> set [CHR 0xAA, CHR 0xB2, CHR 0xB3, CHR 0xB5, CHR 0xB9, CHR 0xBA,
                 CHR 0xBC, CHR 0xBD, CHR 0xBE] \<or>
      (CHR 0xC0 \<le> c \<and> c \<le> CHR 0xD6) \<or> (CHR 0xD8 \<le> c \<and> c \<le> CHR 0xF6) \<or>
      CHR 0xF8 \<le> c)"

text \<open>\<open>str.splitlines()\<close>: a carriage return followed by a line feed is one boundary,
  and a final boundary does not open an empty last line.\<close>

fun splitlines_from :: "string \<Rightarrow> string \<Rightarrow> string list" where
  "splitlines_from cur [] = (if cur = [] then [] else [cur])"
| "splitlines_from cur (c # cs) =
     (if is_linebreak c then
        (case cs of
           d # ds \<Rightarrow>
             if c = CHR 0x0D \<and> d = CHR 0x0A then cur # splitlines_from [] ds
             else cur # splitlines_from [] (d # ds)
         | [] \<Rightarrow> [cur])
      else splitlines_from (cur @ [c]) cs)"

definition splitlines :: "string \<Rightarrow> string list" where
  "splitlines s = splitlines_from [] s"

definition lstrip :: "string \<Rightarrow> string" where
  "lstrip s = dropWhile isspace s"

definition rstrip :: "string \<Rightarrow> string" where
  "rstrip s = rev (dropWhile isspace (rev s))"

definition strip :: "string \<Rightarrow> string" where
  "strip s = rstrip (lstrip s)"

definition startswith :: "string \<Rightarrow> string \<Rightarrow> bool" where
  "startswith s p = prefix p s"

definition endswith :: "string \<Rightarrow> string \<Rightarrow> bool" where
  "endswith s p = suffix p s"

text \<open>\<open>sep.join(xs)\<close>.\<close>

fun join :: "string \<Rightarrow> string list \<Rightarrow> string" where
  "join sep [] = []"
| "join sep [x] = x"
| "join sep (x # y # ys) = x @ sep @ join sep (y # ys)"

text \<open>\<open>a in b\<close> on strings: \<open>a\<close> occurs in \<open>b\<close> as a contiguous piece.\<close>

fun contains :: "string \<Rightarrow> string \<Rightarrow> bool" where
  "contains [] a = (a = [])"
| "contains (c # cs) a = (prefix a (c # cs) \<or> contains cs a)"

text \<open>\<open>xs.insert(i, x)\<close> for \<open>i \<ge> 0\<close>.\<close>

definition list_insert :: "'a list \<Rightarrow> nat \<Rightarrow> 'a \<Rightarrow> 'a list" where
  "list_insert xs i x = take i xs @ [x] @ drop i xs"

text \<open>The leading whitespace of a line: \<open>line[: len(line) - len(line.lstrip())]\<close>.\<close>

definition indent_of :: "string \<Rightarrow> string" where
  "indent_of line = take (length line - length (lstrip line)) line"

text \<open>
  The first lines of both resolvers: split into lines, drop the blank lines at both
  ends, and append an empty line so that the joined text ends with a newline.
\<close>

definition blank :: "string \<Rightarrow> bool" where
  "blank line = (strip line = [])"

definition prepare_lines :: "string \<Rightarrow> string list" where
  "prepare_lines wgsl =
     rev (dropWhile blank (rev (dropWhile blank (splitlines wgsl)))) @ [[]]"

text \<open>\<open>s.split(sep)[0]\<close>: the text before the first occurrence of \<open>sep\<close>.\<close>

fun before_sep :: "string \<Rightarrow> string \<Rightarrow> string" where
  "before_sep sep [] = []"
| "before_sep sep (c # cs) = (if prefix sep (c # cs) then [] else c # before_sep sep cs)"

text \<open>Python dictionaries keep insertion order: an association list with distinct
  keys, where a new key goes to the end. \<open>d.setdefault(k, []).append(v)\<close>:\<close>

definition dict_append :: "('k \<times> 'v list) list \<Rightarrow> 'k \<Rightarrow> 'v \<Rightarrow> ('k \<times> 'v list) list" where
  "dict_append d k v =
     AList.update k ((case map_of d k of None \<Rightarrow> [] | Some vs \<Rightarrow> vs) @ [v]) d"

definition keys :: "('k \<times> 'v) list \<Rightarrow> 'k list" where
  "keys d = map fst d"

text \<open>\<open>str(n)\<close> for a natural number.\<close>

definition digit_char :: "nat \<Rightarrow> char" where
  "digit_char d = ''0123456789'' ! d"

fun str_nat :: "nat \<Rightarrow> string" where
  "str_nat n = (if n < 10 then [digit_char n] else str_nat (n div 10) @ [digit_char (n mod 10)])"

section \<open>Varying resolution\<close>

definition varying_types :: "string list" where
  "varying_types =
     [''f32'', ''vec2<f32>'', ''vec3<f32>'', ''vec4<f32>'',
      ''i32'', ''vec2<i32>'', ''vec3<i32>'', ''vec4<i32>'',
      ''u32'', ''vec2<u32>'', ''vec3<u32>'', ''vec4<u32>'']"

definition builtin_varyings :: "(string \<times> string) list" where
  "builtin_varyings = [(''position'', ''vec4<f32>'')]"

text \<open>
  \<open>re_varying_setter = re.compile(r"\A\s*?varyings\.(\w+)(\.\w+)?\s*?\=")\<close>, as
  \<open>re_varying_setter.match(line)\<close>. The result holds group 1 (the name), group 2
  (the attribute with its dot, empty where the source has \<open>None\<close>) and the text
  after the match, \<open>line[match.end():]\<close>. The word runs are greedy, and a shorter
  run never lets the rest of the pattern match, so the match is the one computed here.
\<close>

definition re_varying_setter :: "string \<Rightarrow> (string \<times> string \<times> string) option" where
  "re_varying_setter line =
     (let r0 = dropWhile isspace line in
      if \<not> startswith r0 ''varyings.'' then None
      else
        let r1 = drop (length ''varyings.'') r0;
            name = takeWhile is_word r1;
            r2 = dropWhile is_word r1
        in if name = [] then None
           else
             let (attr, r3) =
                   (case r2 of
                      c # cs \<Rightarrow>
                        if c = CHR ''.'' \<and> takeWhile is_word cs \<noteq> []
                        then (c # takeWhile is_word cs, dropWhile is_word cs)
                        else ([], r2)
                    | [] \<Rightarrow> ([], []))
             in (case dropWhile isspace r3 of
                   c # after \<Rightarrow> if c = CHR ''='' then Some (name, attr, after) else None
                 | [] \<Rightarrow> None))"

text \<open>
  \<open>re_varying_getter = re.compile(r"[\s,\(\[]varyings\.(\w+)", re.UNICODE)\<close>:
  the names of \<open>re_varying_getter.finditer(text)\<close>, the matches from left to right
  without overlap.
\<close>

definition is_getter_lead :: "char \<Rightarrow> bool" where
  "is_getter_lead c = (isspace c \<or> c = CHR '','' \<or> c = CHR ''('' \<or> c = CHR ''['')"

function re_varying_getter :: "string \<Rightarrow> string list" where
  "re_varying_getter [] = []"
| "re_varying_getter (c # cs) =
     (if is_getter_lead c \<and> startswith cs ''varyings.''
         \<and> takeWhile is_word (drop (length ''varyings.'') cs) \<noteq> []
      then takeWhile is_word (drop (length ''varyings.'') cs)
             # re_varying_getter (dropWhile is_word (drop (length ''varyings.'') cs))
      else re_varying_getter cs)"
  by pat_completeness auto
termination
  by (relation "measure length")
     (auto simp: le_imp_less_Suc length_dropWhile_le order_trans [OF length_dropWhile_le])

text \<open>The state of the two scanning loops: the three dictionaries of the source.\<close>

record varyings =
  assigned_varyings :: "(string \<times> nat list) list"
  used_varyings :: "(string \<times> nat list) list"
  types :: "(string \<times> string) list"

text \<open>The type of an assignment:
  \<open>line[match.end():].split("(")[0].strip().replace(" ", "")\<close>, emptied when it is
  not one of \<open>varying_types\<close>.\<close>

definition setter_type :: "string \<Rightarrow> string" where
  "setter_type after =
     (let type = filter (\<lambda>c. c \<noteq> CHR '' '') (strip (before_sep ''('' after))
      in if type \<in> set varying_types then type else [])"

text \<open>The first loop: the lines where a varying is set, and the types.\<close>

fun scan_setters :: "string list \<Rightarrow> nat \<Rightarrow> varyings \<Rightarrow> error + varyings" where
  "scan_setters [] linenr v = Inr v"
| "scan_setters (line # rest) linenr v =
     (case re_varying_setter line of
        None \<Rightarrow> scan_setters rest (Suc linenr) v
      | Some (name, attr, after) \<Rightarrow>
          let v1 = (case map_of builtin_varyings name of
                      Some t \<Rightarrow> v\<lparr>used_varyings := AList.update name [] (used_varyings v),
                                  types := AList.update name t (types v)\<rparr>
                    | None \<Rightarrow> v);
              type = setter_type after
          in if attr \<noteq> [] then
               scan_setters rest (Suc linenr)
                 (v1\<lparr>assigned_varyings := dict_append (assigned_varyings v1) name linenr\<rparr>)
             else if type = [] then Inl TypeError
             else if name \<in> set (keys (types v1)) \<and> Some type \<noteq> map_of (types v1) name
               then Inl TypeError
             else
               scan_setters rest (Suc linenr)
                 (v1\<lparr>types := AList.update name type (types v1),
                     assigned_varyings := dict_append (assigned_varyings v1) name linenr\<rparr>))"

text \<open>The inner loop of the second loop: the reads found on one line.\<close>

fun note_getters ::
  "string list \<Rightarrow> nat \<Rightarrow> bool \<Rightarrow> varyings \<Rightarrow> error + varyings" where
  "note_getters [] linenr in_vertex_shader v = Inr v"
| "note_getters (name # names) linenr in_vertex_shader v =
     (if linenr \<in> set (case map_of (assigned_varyings v) name of None \<Rightarrow> [] | Some ls \<Rightarrow> ls)
        then note_getters names linenr in_vertex_shader v
      else if in_vertex_shader then Inl TypeError
      else note_getters names linenr in_vertex_shader
             (v\<lparr>used_varyings := dict_append (used_varyings v) name linenr\<rparr>))"

text \<open>The second loop: the varyings that are used, and the function that first
  mentions the \<open>Varyings\<close> struct.\<close>

fun scan_getters ::
  "string list \<Rightarrow> nat \<Rightarrow> bool \<Rightarrow> nat \<Rightarrow> nat option \<Rightarrow> varyings
     \<Rightarrow> error + (nat option \<times> varyings)" where
  "scan_getters [] linenr in_vertex_shader current_func_linenr struct_insert_pos v =
     Inr (struct_insert_pos, v)"
| "scan_getters (line0 # rest) linenr in_vertex_shader current_func_linenr struct_insert_pos v =
     (let line1 = strip line0;
          is_fn = startswith line1 ''fn '';
          current_func_linenr' = (if is_fn then linenr else current_func_linenr);
          in_vertex_shader' =
            (if is_fn then startswith line1 ''fn vs_main'' else in_vertex_shader);
          line = before_sep ''//'' line1;
          struct_insert_pos' =
            (if contains line ''Varyings'' \<and> struct_insert_pos = None
             then Some current_func_linenr' else struct_insert_pos)
      in case note_getters (re_varying_getter (CHR '' '' # line)) linenr in_vertex_shader' v of
           Inl e \<Rightarrow> Inl e
         | Inr v' \<Rightarrow>
             scan_getters rest (Suc linenr) in_vertex_shader' current_func_linenr'
               struct_insert_pos' v')"

text \<open>The check that every used varying is assigned.\<close>

definition check_assigned :: "varyings \<Rightarrow> error + unit" where
  "check_assigned v =
     (if \<forall>name \<in> set (keys (used_varyings v)). name \<in> set (keys (assigned_varyings v))
      then Inr () else Inl TypeError)"

text \<open>
  Commenting out a multi-line assignment: the \<open>while\<close> loop, entered with a line that
  does not end with a semicolon. \<open>linenr\<close> is the line commented out last.
\<close>

definition unexpected :: "string list" where
  "unexpected = [''fn '', ''struct '', ''var '', ''let '', ''}'']"

function comment_rest :: "string list \<Rightarrow> string \<Rightarrow> nat \<Rightarrow> error + string list" where
  "comment_rest lines indent linenr =
     (if length lines \<le> Suc linenr then Inl IndexError
      else
        let line_s = strip (lines ! Suc linenr)
        in if (\<exists>u \<in> set unexpected. startswith line_s u) \<or> Suc linenr = length lines - 1
           then Inl TypeError
           else
             let lines' = lines[Suc linenr := indent @ ''// '' @ line_s]
             in if endswith line_s '';'' then Inr lines'
                else comment_rest lines' indent (Suc linenr))"
  by pat_completeness auto
termination
  by (relation "measure (\<lambda>(lines, indent, linenr). length lines - linenr)") auto

text \<open>The body of \<open>for linenr in linenrs\<close>: one assignment of an unused varying.\<close>

definition comment_out :: "string list \<Rightarrow> nat \<Rightarrow> error + string list" where
  "comment_out lines linenr =
     (if length lines \<le> linenr then Inl IndexError
      else
        let line = lines ! linenr;
            indent = indent_of line;
            lines' = lines[linenr := indent @ ''// unused: '' @ drop (length indent) line]
        in if endswith (strip line) '';'' then Inr lines'
           else comment_rest lines' indent linenr)"

fun comment_out_all :: "string list \<Rightarrow> nat list \<Rightarrow> error + string list" where
  "comment_out_all lines [] = Inr lines"
| "comment_out_all lines (linenr # linenrs) =
     (case comment_out lines linenr of
        Inl e \<Rightarrow> Inl e
      | Inr lines' \<Rightarrow> comment_out_all lines' linenrs)"

text \<open>The loop over \<open>assigned_varyings.items()\<close>.\<close>

fun comment_unused ::
  "string list \<Rightarrow> string list \<Rightarrow> (string \<times> nat list) list \<Rightarrow> error + string list" where
  "comment_unused used lines [] = Inr lines"
| "comment_unused used lines ((name, linenrs) # items) =
     (if name \<notin> set used then
        (case comment_out_all lines linenrs of
           Inl e \<Rightarrow> Inl e
         | Inr lines' \<Rightarrow> comment_unused used lines' items)
      else comment_unused used lines items)"

text \<open>The lines of the struct. \<open>types[name]\<close> raises \<open>KeyError\<close> for a name without type.\<close>

definition slot_line :: "nat \<Rightarrow> string \<Rightarrow> string \<Rightarrow> string" where
  "slot_line slotnr name t =
     ''    @location('' @ str_nat slotnr @ '') '' @ name @ '' : '' @ t @ '',''"

definition builtin_line :: "string \<Rightarrow> string \<Rightarrow> string" where
  "builtin_line name t = ''    @builtin('' @ name @ '') '' @ name @ '' : '' @ t @ '',''"

fun slot_lines :: "(string \<times> string) list \<Rightarrow> nat \<Rightarrow> string list \<Rightarrow> error + string list" where
  "slot_lines tys slotnr [] = Inr []"
| "slot_lines tys slotnr (name # names) =
     (case map_of tys name of
        None \<Rightarrow> Inl KeyError
      | Some t \<Rightarrow>
          (case slot_lines tys (Suc slotnr) names of
             Inl e \<Rightarrow> Inl e
           | Inr ls \<Rightarrow> Inr (slot_line slotnr name t # ls)))"

fun builtin_lines :: "(string \<times> string) list \<Rightarrow> string list \<Rightarrow> error + string list" where
  "builtin_lines tys [] = Inr []"
| "builtin_lines tys (name # names) =
     (case map_of tys name of
        None \<Rightarrow> Inl KeyError
      | Some t \<Rightarrow>
          (case builtin_lines tys names of
             Inl e \<Rightarrow> Inl e
           | Inr ls \<Rightarrow> Inr (builtin_line name t # ls)))"

definition used_slots :: "varyings \<Rightarrow> string list" where
  "used_slots v =
     sort (remdups (filter (\<lambda>n. n \<notin> set (keys builtin_varyings)) (keys (used_varyings v))))"

definition used_builtins :: "varyings \<Rightarrow> string list" where
  "used_builtins v =
     sort (remdups (filter (\<lambda>n. n \<in> set (keys builtin_varyings)) (keys (used_varyings v))))"

definition struct_lines :: "varyings \<Rightarrow> error + string list" where
  "struct_lines v =
     (case slot_lines (types v) 0 (used_slots v) of
        Inl e \<Rightarrow> Inl e
      | Inr ss \<Rightarrow>
          (case builtin_lines (types v) (used_builtins v) of
             Inl e \<Rightarrow> Inl e
           | Inr bs \<Rightarrow> Inr ([''struct Varyings {''] @ ss @ bs @ [''};\<newline>''])))"

definition insert_struct :: "string list \<Rightarrow> nat option \<Rightarrow> varyings \<Rightarrow> error + string list" where
  "insert_struct lines struct_insert_pos v =
     (case struct_insert_pos of
        None \<Rightarrow> if used_varyings v = [] then Inr lines else Inl AssertionError
      | Some pos0 \<Rightarrow>
          if pos0 > length lines then Inl IndexError
          else
          let pos = (if pos0 > 0 \<and> startswith (lstrip (lines ! (pos0 - 1))) ''@''
                     then pos0 - 1 else pos0)
          in (case struct_lines v of
                Inl e \<Rightarrow> Inl e
              | Inr sl \<Rightarrow>
                  if length lines \<le> pos then Inl IndexError
                  else
                    let indent = indent_of (lines ! pos)
                    in Inr (list_insert lines pos
                              (join ''\<newline>'' (map (\<lambda>l. indent @ l) sl)))))"

text \<open>The three dictionaries as the function creates them, empty.\<close>

definition no_varyings :: varyings where
  "no_varyings = \<lparr>assigned_varyings = [], used_varyings = [], types = []\<rparr>"

definition resolve_varyings_lines :: "string list \<Rightarrow> error + string list" where
  "resolve_varyings_lines lines =
     (case scan_setters lines 0 no_varyings of
        Inl e \<Rightarrow> Inl e
      | Inr v1 \<Rightarrow>
          (case scan_getters lines 0 False 0 None v1 of
             Inl e \<Rightarrow> Inl e
           | Inr (struct_insert_pos, v) \<Rightarrow>
               (case check_assigned v of
                  Inl e \<Rightarrow> Inl e
                | Inr _ \<Rightarrow>
                    (case comment_unused (keys (used_varyings v)) lines (assigned_varyings v) of
                       Inl e \<Rightarrow> Inl e
                     | Inr lines' \<Rightarrow> insert_struct lines' struct_insert_pos v))))"

definition resolve_varyings :: "string \<Rightarrow> error + string" where
  "resolve_varyings wgsl =
     (case resolve_varyings_lines (prepare_lines wgsl) of
        Inl e \<Rightarrow> Inl e
      | Inr lines \<Rightarrow> Inr (join ''\<newline>'' lines))"





definition no_trailing_comment_src :: string where
  "no_trailing_comment_src =
     ''fn vs_main() {\<newline>    varyings.x = f32(1.0);\<newline>    out.y = 2.0;\<newline>}''"

definition trailing_comment_src :: string where
  "trailing_comment_src = ''fn vs_main() {\<newline>    varyings.x = f32(1.0); // set x\<newline>}''"

definition trailing_comment_spill_src :: string where
  "trailing_comment_spill_src =
     ''fn vs_main() {\<newline>    varyings.x = f32(1.0); // set x\<newline>    out.y = 2.0;\<newline>}''"

section \<open>Depth output resolution\<close>

text \<open>\<open>re_depth_setter = re.compile(r"\A\s*?out\.depth\s*?\=")\<close>, as
  \<open>re_depth_setter.match(line)\<close>: whitespace, \<open>out.depth\<close>, whitespace, an equals sign.\<close>

definition re_depth_setter :: "string \<Rightarrow> bool" where
  "re_depth_setter line =
     (let r = dropWhile isspace line in
      startswith r ''out.depth'' \<and>
      startswith (dropWhile isspace (drop (length ''out.depth'') r)) ''='')"

definition is_struct_open :: "string \<Rightarrow> bool" where
  "is_struct_open line = startswith (lstrip line) ''struct FragmentOutput {''"

text \<open>
  The scanning loop of \<open>resolve_depth_output\<close>. \<open>struct_linrnr\<close> is \<open>None\<close> for the
  source's \<open>-1\<close>. The loop breaks at a depth assignment once the struct is known.
\<close>

fun scan_depth :: "string list \<Rightarrow> nat \<Rightarrow> bool \<Rightarrow> nat option \<Rightarrow> bool \<times> nat option" where
  "scan_depth [] linenr depth_is_set struct_linrnr = (depth_is_set, struct_linrnr)"
| "scan_depth (line # rest) linenr depth_is_set struct_linrnr =
     (if is_struct_open line then scan_depth rest (Suc linenr) depth_is_set (Some linenr)
      else if re_depth_setter line then
        (if struct_linrnr \<noteq> None then (True, struct_linrnr)
         else scan_depth rest (Suc linenr) True struct_linrnr)
      else scan_depth rest (Suc linenr) depth_is_set struct_linrnr)"

definition depth_field :: string where
  "depth_field = ''    @builtin(frag_depth) depth : f32,''"

definition resolve_depth_lines :: "string list \<Rightarrow> error + string list" where
  "resolve_depth_lines lines =
     (case scan_depth lines 0 False None of
        (False, _) \<Rightarrow> Inr lines
      | (True, None) \<Rightarrow> Inl TypeError
      | (True, Some struct_linrnr) \<Rightarrow>
          Inr (list_insert lines (struct_linrnr + 1)
                 (indent_of (lines ! struct_linrnr) @ depth_field)))"

definition resolve_depth_output :: "string \<Rightarrow> error + string" where
  "resolve_depth_output wgsl =
     (case resolve_depth_lines (prepare_lines wgsl) of
        Inl e \<Rightarrow> Inl e
      | Inr lines \<Rightarrow> Inr (join ''\<newline>'' lines))"

text \<open>A line that declares the depth builtin.\<close>

definition has_depth_builtin :: "string \<Rightarrow> bool" where
  "has_depth_builtin line = contains line ''@builtin(frag_depth)''"

text \<open>The source of the counterexample of C9: the struct already declares the field.\<close>

definition depth_declared_twice_src :: string where
  "depth_declared_twice_src =
     ''struct FragmentOutput {\<newline>    @builtin(frag_depth) depth : f32,\<newline>};\<newline>out.depth = 0.5;''"

definition depth_example_src :: string where
  "depth_example_src =
     ''\<newline>  struct FragmentOutput {\<newline>    color : vec4<f32>,\<newline>  };\<newline>  out.depth = 0.5;\<newline>\<newline>''"

section \<open>The shader: template variables, definitions, hash and source generation\<close>

text \<open>
  The Python values that occur as template variables and in the dictionaries a shader
  returns: \<open>None\<close>, booleans, integers, strings, tuples and lists. Floating point
  values are not modelled.
\<close>

datatype pyval =
    PNone | PBool bool | PInt int | PStr string | PTuple "pyval list" | PList "pyval list"

type_synonym pydict = "(string \<times> pyval) list"

text \<open>\<open>isinstance(x, int)\<close>: a \<open>bool\<close> is an \<open>int\<close> in Python.\<close>

fun isinstance_int :: "pyval \<Rightarrow> bool" where
  "isinstance_int (PInt i) = True"
| "isinstance_int (PBool b) = True"
| "isinstance_int _ = False"

fun int_of :: "pyval \<Rightarrow> int" where
  "int_of (PInt i) = i"
| "int_of (PBool b) = (if b then 1 else 0)"
| "int_of _ = 0"

text \<open>\<open>repr\<close> of these values, as \<open>repr(self.kwargs)\<close> needs it.\<close>

definition hex_digit :: "nat \<Rightarrow> char" where
  "hex_digit d = ''0123456789abcdef'' ! d"

definition str_int :: "int \<Rightarrow> string" where
  "str_int i = (if i < 0 then ''-'' @ str_nat (nat (- i)) else str_nat (nat i))"

text \<open>\<open>repr\<close> of a string: single quotes, unless the string holds a single quote and
  no double quote; the quote and the backslash are escaped, as are the characters that
  are not printable.\<close>

definition repr_char :: "char \<Rightarrow> char \<Rightarrow> string" where
  "repr_char quote c =
     (if c = quote \<or> c = CHR 0x5C then [CHR 0x5C, c]
      else if c = CHR 0x09 then [CHR 0x5C, CHR ''t'']
      else if c = CHR 0x0A then [CHR 0x5C, CHR ''n'']
      else if c = CHR 0x0D then [CHR 0x5C, CHR ''r'']
      else if c < CHR 0x20 \<or> (CHR 0x7F \<le> c \<and> c \<le> CHR 0xA0) \<or> c = CHR 0xAD then
        [CHR 0x5C, CHR ''x'', hex_digit (of_char c div 16), hex_digit (of_char c mod 16)]
      else [c])"

definition repr_str :: "string \<Rightarrow> string" where
  "repr_str s =
     (let quote = (if CHR 0x27 \<in> set s \<and> CHR 0x22 \<notin> set s then CHR 0x22 else CHR 0x27)
      in [quote] @ concat (map (repr_char quote) s) @ [quote])"

fun repr :: "pyval \<Rightarrow> string" where
  "repr PNone = ''None''"
| "repr (PBool b) = (if b then ''True'' else ''False'')"
| "repr (PInt i) = str_int i"
| "repr (PStr s) = repr_str s"
| "repr (PTuple xs) =
     (if length xs = 1 then ''('' @ join '', '' (map repr xs) @ '',)''
      else ''('' @ join '', '' (map repr xs) @ '')'')"
| "repr (PList xs) = ''['' @ join '', '' (map repr xs) @ '']''"

definition repr_item :: "string \<times> pyval \<Rightarrow> string" where
  "repr_item kv = repr_str (fst kv) @ '': '' @ repr (snd kv)"

definition repr_dict :: "pydict \<Rightarrow> string" where
  "repr_dict d = ''{'' @ join '', '' (map repr_item d) @ ''}''"

text \<open>\<open>str.encode()\<close>: UTF-8, one byte below U+0080 and two bytes from there to U+00FF.
  A byte string is a \<open>string\<close> too.\<close>

definition utf8_char :: "char \<Rightarrow> string" where
  "utf8_char c =
     (if (of_char c :: nat) < 128 then [c]
      else [char_of (192 + (of_char c :: nat) div 64), char_of (128 + (of_char c :: nat) mod 64)])"

definition encode :: "string \<Rightarrow> string" where
  "encode s = concat (map utf8_char s)"

text \<open>The inverse of \<open>encode\<close>, used to show that \<open>encode\<close> loses nothing.\<close>

fun utf8_decode :: "string \<Rightarrow> string" where
  "utf8_decode [] = []"
| "utf8_decode [a] = [a]"
| "utf8_decode (a # b # r) =
     (if (of_char a :: nat) < 128 then a # utf8_decode (b # r)
      else char_of (64 * ((of_char a :: nat) - 192) + ((of_char b :: nat) - 128)) # utf8_decode r)"

subsection \<open>\<open>hashlib.sha1\<close>\<close>

text \<open>SHA-1 as FIPS 180-4 defines it, on a byte string; \<open>sha1_hexdigest\<close> is
  \<open>hashlib.sha1(m).hexdigest()\<close>.\<close>

unbundle bit_operations_syntax

type_synonym w32 = "32 word"

definition sha1_pad :: "string \<Rightarrow> string" where
  "sha1_pad m =
     m @ [CHR 0x80] @ replicate ((119 - length m mod 64) mod 64) (CHR 0x00)
       @ map (\<lambda>i. char_of (unat (drop_bit (8 * i) (word_of_nat (8 * length m) :: 64 word)
                                  AND 0xFF)))
           [7, 6, 5, 4, 3, 2, 1, 0 :: nat]"

fun be_words :: "string \<Rightarrow> w32 list" where
  "be_words (a # b # c # d # rest) =
     (push_bit 24 (of_char a) OR push_bit 16 (of_char b) OR push_bit 8 (of_char c) OR of_char d)
       # be_words rest"
| "be_words _ = []"

definition sha1_schedule :: "w32 list \<Rightarrow> w32 list" where
  "sha1_schedule block =
     fold (\<lambda>t w. w @ [word_rotl 1 (w ! (t - 3) XOR w ! (t - 8) XOR w ! (t - 14) XOR w ! (t - 16))])
       [16 ..< 80] block"

definition sha1_f :: "nat \<Rightarrow> w32 \<Rightarrow> w32 \<Rightarrow> w32 \<Rightarrow> w32" where
  "sha1_f t b c d =
     (if t < 20 then (b AND c) OR (NOT b AND d)
      else if t < 40 then b XOR c XOR d
      else if t < 60 then (b AND c) OR (b AND d) OR (c AND d)
      else b XOR c XOR d)"

definition sha1_k :: "nat \<Rightarrow> w32" where
  "sha1_k t = (if t < 20 then 0x5A827999 else if t < 40 then 0x6ED9EBA1
               else if t < 60 then 0x8F1BBCDC else 0xCA62C1D6)"

type_synonym sha1_state = "w32 \<times> w32 \<times> w32 \<times> w32 \<times> w32"

definition sha1_round :: "w32 list \<Rightarrow> nat \<Rightarrow> sha1_state \<Rightarrow> sha1_state" where
  "sha1_round w t = (\<lambda>(a, b, c, d, e).
     (word_rotl 5 a + sha1_f t b c d + e + sha1_k t + w ! t, a, word_rotl 30 b, c, d))"

definition sha1_block :: "w32 list \<Rightarrow> sha1_state \<Rightarrow> sha1_state" where
  "sha1_block block = (\<lambda>(h0, h1, h2, h3, h4).
     (case fold (sha1_round (sha1_schedule block)) [0 ..< 80] (h0, h1, h2, h3, h4) of
        (a, b, c, d, e) \<Rightarrow> (h0 + a, h1 + b, h2 + c, h3 + d, h4 + e)))"

fun sha1_blocks :: "nat \<Rightarrow> w32 list \<Rightarrow> sha1_state \<Rightarrow> sha1_state" where
  "sha1_blocks 0 ws h = h"
| "sha1_blocks (Suc n) ws h = sha1_blocks n (drop 16 ws) (sha1_block (take 16 ws) h)"

definition hex32 :: "w32 \<Rightarrow> string" where
  "hex32 w = map (\<lambda>i. hex_digit (unat (drop_bit (4 * i) w AND 0xF))) [7, 6, 5, 4, 3, 2, 1, 0 :: nat]"

definition sha1_hexdigest :: "string \<Rightarrow> string" where
  "sha1_hexdigest m =
     (let ws = be_words (sha1_pad m) in
      case sha1_blocks (length ws div 16) ws
             (0x67452301, 0xEFCDAB89, 0x98BADCFE, 0x10325476, 0xC3D2E1F0) of
        (h0, h1, h2, h3, h4) \<Rightarrow> hex32 h0 @ hex32 h1 @ hex32 h2 @ hex32 h3 @ hex32 h4)"

subsection \<open>\<open>BaseShader\<close>\<close>

text \<open>
  The fields of a \<open>BaseShader\<close>: \<open>kwargs\<close>, \<open>_typedefs\<close> and \<open>_binding_codes\<close>, each a
  dictionary in insertion order. \<open>shader_type\<close> is the class attribute \<open>type\<close> of a
  world object shader (\<open>compute\<close> or \<open>render\<close>).
\<close>

record shader =
  kwargs :: pydict
  typedefs :: "(string \<times> string) list"
  binding_codes :: "(string \<times> string) list"
  shader_type :: string

definition code_definitions :: "shader \<Rightarrow> string" where
  "code_definitions self =
     join ''\<newline>'' (map snd (typedefs self)) @ ''\<newline>''
       @ join ''\<newline>'' (map snd (binding_codes self))"

definition hash :: "shader \<Rightarrow> string" where
  "hash self =
     sha1_hexdigest (encode (repr_dict (kwargs self)) @ encode (code_definitions self))"

text \<open>The text whose bytes \<open>hash\<close> digests.\<close>

definition hash_text :: "shader \<Rightarrow> string" where
  "hash_text self = repr_dict (kwargs self) @ code_definitions self"

text \<open>\<open>d.update(other)\<close>.\<close>

definition dict_update :: "('k \<times> 'v) list \<Rightarrow> ('k \<times> 'v) list \<Rightarrow> ('k \<times> 'v) list" where
  "dict_update d other = fold (\<lambda>kv d'. AList.update (fst kv) (snd kv) d') other d"

text \<open>
  \<open>generate_wgsl(**kwargs)\<close>. Two collaborators are parameters. \<open>get_code\<close> is the
  method a subclass implements: it composes the templated text from the shader, may
  raise, and may set template variables (\<open>self[key] = value\<close>), so it returns the
  dictionary \<open>self.kwargs\<close> holds after the call; it does not register definitions.
  \<open>render\<close> is the template engine, \<open>jinja_env.from_string(code1).render(**kwargs)\<close>.
  The result is the value returned or the exception raised, with the shader after the
  call: the \<open>finally\<close> clause runs on both paths.
\<close>

definition generate_wgsl ::
  "(shader \<Rightarrow> (error + string) \<times> pydict) \<Rightarrow> (string \<Rightarrow> pydict \<Rightarrow> error + string)
     \<Rightarrow> shader \<Rightarrow> pydict \<Rightarrow> (error + string) \<times> shader" where
  "generate_wgsl get_code render self extra =
     (let old_kwargs = kwargs self;
          self1 = self\<lparr>kwargs := dict_update old_kwargs extra\<rparr>;
          (code1, kwargs2) = get_code self1;
          self2 = self1\<lparr>kwargs := kwargs2\<rparr>;
          result =
            (case code1 of
               Inl e \<Rightarrow> Inl e
             | Inr c1 \<Rightarrow>
                 (case render c1 (kwargs self2) of
                    Inl e \<Rightarrow> Inl (if e = UndefinedError then ValueError else e)
                  | Inr c2 \<Rightarrow>
                      (case resolve_varyings c2 of
                         Inl e \<Rightarrow> Inl e
                       | Inr c3 \<Rightarrow> resolve_depth_output c3)))
      in (result, self2\<lparr>kwargs := old_kwargs\<rparr>))"

text \<open>Two shaders that register the same fragments, one of them a binding
  declaration as a type definition.\<close>

definition split_shader_a :: shader where
  "split_shader_a =
     \<lparr>kwargs = [(''n_clipping_planes'', PInt 0)],
      typedefs = [(''Struct_u'', ''struct Struct_u { x: f32, };'')],
      binding_codes = [(''u'', ''@group(0) @binding(0) var<uniform> u: Struct_u;''),
                       (''s'', ''@group(0) @binding(1) var s: sampler;'')],
      shader_type = ''render''\<rparr>"

definition split_shader_b :: shader where
  "split_shader_b =
     \<lparr>kwargs = [(''n_clipping_planes'', PInt 0)],
      typedefs = [(''Struct_u'', ''struct Struct_u { x: f32, };''),
                  (''u'', ''@group(0) @binding(0) var<uniform> u: Struct_u;'')],
      binding_codes = [(''s'', ''@group(0) @binding(1) var s: sampler;'')],
      shader_type = ''render''\<rparr>"

section \<open>Bindings\<close>

text \<open>
  The resources a binding refers to, with the attributes this module reads. A buffer or
  texture view carries the identity of the Python object (\<open>buf_id\<close>, \<open>tv_id\<close>) and the
  native objects the resource update has stored on it (\<open>_wgpu_buffer[1]\<close>,
  \<open>_wgpu_sampler[1]\<close>, \<open>_wgpu_texture_view[1]\<close>), as handles. Handles, binding slots
  and group indices are natural numbers.
\<close>

record buffer =
  buf_id :: nat
  buf_wgpu_buffer :: nat
  buf_nbytes :: nat
  buf_nitems :: nat
  buf_size :: nat
  buf_format :: string
  buf_vertex_byte_range :: "nat \<times> nat"

record texture_view =
  tv_id :: nat
  tv_texture :: nat
  tv_wgpu_sampler :: nat
  tv_wgpu_texture_view :: nat
  tv_view_dim :: string
  tv_format :: string

datatype resource = Buffer buffer | TextureView texture_view | OtherResource

record binding =
  b_name :: string
  b_type :: string
  b_resource :: resource
  b_visibility :: nat

text \<open>
  The enumerations of the \<open>wgpu\<close> library that the module reads with \<open>getattr\<close>: each
  maps a member name to its string value.
\<close>

definition BufferBindingType :: "(string \<times> string) list" where
  "BufferBindingType =
     [(''uniform'', ''uniform''), (''storage'', ''storage''),
      (''read_only_storage'', ''read-only-storage'')]"

definition SamplerBindingType :: "(string \<times> string) list" where
  "SamplerBindingType =
     [(''filtering'', ''filtering''), (''non_filtering'', ''non-filtering''),
      (''comparison'', ''comparison'')]"

definition TextureSampleType :: "(string \<times> string) list" where
  "TextureSampleType =
     [(''float'', ''float''), (''unfilterable_float'', ''unfilterable-float''),
      (''depth'', ''depth''), (''sint'', ''sint''), (''uint'', ''uint'')]"

definition StorageTextureAccess :: "(string \<times> string) list" where
  "StorageTextureAccess = [(''write_only'', ''write-only'')]"

definition TextureViewDimension :: "(string \<times> string) list" where
  "TextureViewDimension =
     [(''d1'', ''1d''), (''d2'', ''2d''), (''d2_array'', ''2d-array''), (''cube'', ''cube''),
      (''cube_array'', ''cube-array''), (''d3'', ''3d'')]"

text \<open>\<open>getattr(enum, name)\<close> and \<open>getattr(enum, name, default)\<close>.\<close>

definition getattr :: "(string \<times> string) list \<Rightarrow> string \<Rightarrow> error + string" where
  "getattr enum name = (case map_of enum name of None \<Rightarrow> Inl AttributeError | Some v \<Rightarrow> Inr v)"

definition getattr_default :: "(string \<times> string) list \<Rightarrow> string \<Rightarrow> string \<Rightarrow> string" where
  "getattr_default enum name dflt = (case map_of enum name of None \<Rightarrow> dflt | Some v \<Rightarrow> v)"

text \<open>
  Code of the repository that is not among the sources, taken as parameters:
  \<open>to_texture_format\<close> and \<open>to_vertex_format\<close> of \<open>_utils\<close>, and the table
  \<open>ALTTEXFORMAT\<close> of \<open>_update\<close> (\<open>alttexformat u fmt\<close> is the first component of the
  table's entry for \<open>fmt\<close>, where there is one).
\<close>

record utils =
  to_texture_format :: "string \<Rightarrow> error + string"
  to_vertex_format :: "string \<Rightarrow> error + string"
  alttexformat :: "string \<Rightarrow> string option"

text \<open>The texel format the module works with:
  \<open>fmt = to_texture_format(resource.format); fmt = ALTTEXFORMAT.get(fmt, [fmt])[0]\<close>.\<close>

definition texel_format :: "utils \<Rightarrow> string \<Rightarrow> error + string" where
  "texel_format u format =
     (case to_texture_format u format of
        Inl e \<Rightarrow> Inl e
      | Inr fmt \<Rightarrow> Inr (case alttexformat u fmt of None \<Rightarrow> fmt | Some alt \<Rightarrow> alt))"

text \<open>\<open>s.partition(sep)[2]\<close>: the text after the first occurrence of \<open>sep\<close>.\<close>

fun after_sep :: "string \<Rightarrow> string \<Rightarrow> string" where
  "after_sep sep [] = []"
| "after_sep sep (c # cs) =
     (if prefix sep (c # cs) then drop (length sep) (c # cs) else after_sep sep cs)"

text \<open>The two dictionaries \<open>get_bind_group_descriptors\<close> returns: the bind group entry
  and the bind group layout entry.\<close>

datatype bind_entry =
    BufferBinding nat nat nat nat
  | ResourceBinding nat nat

datatype layout_entry =
    BufferLayout nat nat string bool nat
  | SamplerLayout nat nat string
  | TextureLayout nat nat string string bool
  | StorageTextureLayout nat nat string string string

text \<open>The sample type of a texture binding of type \<open>texture/auto\<close>, from the texel
  format.\<close>

definition auto_sample_type :: "string \<Rightarrow> error + string" where
  "auto_sample_type fmt =
     (if contains fmt ''float'' \<or> contains fmt ''norm'' then Inr ''float''
      else if contains fmt ''uint'' then Inr ''uint''
      else if contains fmt ''sint'' then Inr ''sint''
      else if contains fmt ''depth'' then Inr ''depth''
      else Inl ValueError)"

text \<open>
  \<open>Binding.get_bind_group_descriptors(slot)\<close>. The fields are \<open>BufferBinding binding
  buffer offset size\<close>, \<open>ResourceBinding binding resource\<close>, \<open>BufferLayout binding
  visibility type has_dynamic_offset min_binding_size\<close>, \<open>SamplerLayout binding
  visibility type\<close>, \<open>TextureLayout binding visibility sample_type view_dimension
  multisampled\<close> and \<open>StorageTextureLayout binding visibility access format
  view_dimension\<close>. A type that starts with none of the four prefixes leaves the
  local variables unbound.
\<close>

definition get_bind_group_descriptors ::
  "utils \<Rightarrow> binding \<Rightarrow> nat \<Rightarrow> error + (bind_entry \<times> layout_entry)" where
  "get_bind_group_descriptors u self slot =
     (let resource = b_resource self;
          subtype = after_sep ''/'' (b_type self)
      in
      if startswith (b_type self) ''buffer/'' then
        (case resource of
           Buffer buf \<Rightarrow>
             (case getattr BufferBindingType subtype of
                Inl e \<Rightarrow> Inl e
              | Inr t \<Rightarrow>
                  Inr (BufferBinding slot (buf_wgpu_buffer buf) 0 (buf_nbytes buf),
                       BufferLayout slot (b_visibility self) t False 0))
         | _ \<Rightarrow> Inl AssertionError)
      else if startswith (b_type self) ''sampler/'' then
        (case resource of
           TextureView tv \<Rightarrow>
             (case getattr SamplerBindingType subtype of
                Inl e \<Rightarrow> Inl e
              | Inr t \<Rightarrow>
                  Inr (ResourceBinding slot (tv_wgpu_sampler tv),
                       SamplerLayout slot (b_visibility self) t))
         | _ \<Rightarrow> Inl AssertionError)
      else if startswith (b_type self) ''texture/'' then
        (case resource of
           TextureView tv \<Rightarrow>
             (let dim = getattr_default TextureViewDimension (tv_view_dim tv) (tv_view_dim tv);
                  sample_type0 = getattr_default TextureSampleType subtype subtype;
                  sample_type =
                    (if sample_type0 = ''auto'' then
                       (case texel_format u (tv_format tv) of
                          Inl e \<Rightarrow> Inl e
                        | Inr fmt \<Rightarrow> auto_sample_type fmt)
                     else Inr sample_type0)
              in case sample_type of
                   Inl e \<Rightarrow> Inl e
                 | Inr st \<Rightarrow>
                     Inr (ResourceBinding slot (tv_wgpu_texture_view tv),
                          TextureLayout slot (b_visibility self) st dim False))
         | _ \<Rightarrow> Inl AssertionError)
      else if startswith (b_type self) ''storage_texture/'' then
        (case resource of
           TextureView tv \<Rightarrow>
             (let dim = getattr_default TextureViewDimension (tv_view_dim tv) (tv_view_dim tv)
              in case texel_format u (tv_format tv) of
                   Inl e \<Rightarrow> Inl e
                 | Inr fmt \<Rightarrow>
                     (case getattr StorageTextureAccess subtype of
                        Inl e \<Rightarrow> Inl e
                      | Inr access \<Rightarrow>
                          Inr (ResourceBinding slot (tv_wgpu_texture_view tv),
                               StorageTextureLayout slot (b_visibility self) access fmt dim)))
         | _ \<Rightarrow> Inl AssertionError)
      else Inl UnboundLocalError)"

text \<open>Concrete inputs: the format helpers as the identity, with no alternative
  formats, and a texture view.\<close>

definition plain_utils :: utils where
  "plain_utils =
     \<lparr>to_texture_format = (\<lambda>f. Inr f), to_vertex_format = (\<lambda>f. Inr f),
      alttexformat = (\<lambda>f. None)\<rparr>"

definition example_view :: texture_view where
  "example_view =
     \<lparr>tv_id = 7, tv_texture = 6, tv_wgpu_sampler = 11, tv_wgpu_texture_view = 12,
      tv_view_dim = ''2d'', tv_format = ''rgba8unorm''\<rparr>"

definition auto_binding :: "string \<Rightarrow> binding" where
  "auto_binding format =
     \<lparr>b_name = ''t_img'', b_type = ''texture/auto'',
      b_resource = TextureView (example_view\<lparr>tv_format := format\<rparr>), b_visibility = 3\<rparr>"

section \<open>Pipeline containers\<close>

text \<open>
  The dictionary a shader's \<open>get_resources\<close> returns: the index buffer (or \<open>None\<close>),
  the vertex buffers by slot, and the bindings by group and slot.
\<close>

datatype resources_value =
    NoneValue
  | BufferValue buffer
  | BuffersValue "(nat \<times> buffer) list"
  | BindingsValue "(nat \<times> (nat \<times> binding) list) list"

type_synonym resources = "(string \<times> resources_value) list"

text \<open>The vertex buffer layout \<open>array_stride, step_mode, format, shader_location\<close>
  (the attribute's offset is always 0), and the descriptor of a render pipeline.\<close>

datatype vbo_des = VertexBufferDescriptor nat string string nat

record render_pipeline_descriptor =
  rp_layout :: nat
  rp_module :: nat
  rp_buffers :: "vbo_des list"
  rp_topology :: pyval
  rp_strip_index_format :: "string option"
  rp_cull_mode :: pyval
  rp_depth_stencil :: pydict
  rp_targets :: "string list"

text \<open>
  Every call this module makes on the GPU device, on the resource updater, on the
  environment and on a render or compute pass. The world keeps them in order; a
  created object's handle is the position of the call that created it.
\<close>

datatype gpu_call =
    CreateShaderModule string
  | CreateBindGroupLayout "layout_entry list"
  | CreateBindGroup nat "bind_entry list"
  | CreatePipelineLayout "nat list"
  | CreateComputePipeline nat nat string
  | CreateRenderPipeline render_pipeline_descriptor
  | UpdateResource string nat
  | RegisterPipelineContainer
  | SetPipeline nat
  | SetVertexBuffer nat nat nat nat
  | SetBindGroup nat nat
  | SetIndexBuffer nat nat nat
  | Draw "int list"
  | DrawIndexed "int list"
  | DispatchWorkgroups "int list"

text \<open>\<open>cache_d\<close> is the dictionary of the module's \<open>Cache\<close> object, \<open>wgpu_usage\<close> the
  usage flags stored on the resource objects, by identity.\<close>

record world =
  gpu_calls :: "gpu_call list"
  cache_d :: "(string \<times> nat) list"
  wgpu_usage :: "(nat \<times> nat) list"

datatype container_kind = ComputePipelineContainer | RenderPipelineContainer

text \<open>
  The attributes \<open>PipelineContainer.__init__\<close> and \<open>RenderPipelineContainer.__init__\<close>
  set. \<open>broken\<close> is an integer (\<open>False\<close> is 0); \<open>strip_index_format\<close> is \<open>None\<close> for the
  source's 0; \<open>shader_hash\<close> is \<open>None\<close> for the initial \<open>b""\<close>. Dictionaries keyed by the
  environment hash and by the pass index are association lists.
\<close>

record container =
  kind :: container_kind
  shader :: shader
  shader_hash :: "string option"
  resources :: "resources option"
  pipeline_info :: "pydict option"
  render_info :: "pydict option"
  wgpu_shaders :: "(string \<times> (nat \<times> nat) list) list"
  wgpu_pipelines :: "(string \<times> (nat \<times> nat) list) list"
  bind_group_layout_descriptors :: "layout_entry list list"
  wgpu_bind_group_layouts :: "nat list"
  wgpu_bind_groups :: "nat list"
  flat_resources :: "(string \<times> nat) list"
  broken :: int
  strip_index_format :: "string option"
  vertex_buffer_descriptors :: "vbo_des list"

definition new_container :: "container_kind \<Rightarrow> shader \<Rightarrow> container" where
  "new_container k sh =
     \<lparr>kind = k, shader = sh, shader_hash = None, resources = None, pipeline_info = None,
      render_info = None, wgpu_shaders = [], wgpu_pipelines = [],
      bind_group_layout_descriptors = [], wgpu_bind_group_layouts = [],
      wgpu_bind_groups = [], flat_resources = [], broken = 0, strip_index_format = None,
      vertex_buffer_descriptors = []\<rparr>"

text \<open>
  The collaborators of an update, as parameters: the format helpers, the methods of the
  shader subclass for the world object at hand (each may raise and may change the
  shader, as \<open>define_binding\<close> does), the template engine, and which calls the device
  refuses by raising.
\<close>

record collab =
  helpers :: utils
  shader_get_code :: "shader \<Rightarrow> (error + string) \<times> pydict"
  jinja_render :: "string \<Rightarrow> pydict \<Rightarrow> error + string"
  shader_get_resources :: "shader \<Rightarrow> (error + resources) \<times> shader"
  shader_get_pipeline_info :: "shader \<Rightarrow> (error + pydict) \<times> shader"
  shader_get_render_info :: "shader \<Rightarrow> (error + pydict) \<times> shader"
  device_fails :: "gpu_call \<Rightarrow> bool"

text \<open>The environment: its hash and its blender.\<close>

record environment =
  env_hash :: string
  pass_count :: nat
  color_descriptors :: "nat \<Rightarrow> string list"
  depth_descriptor :: "nat \<Rightarrow> pydict"
  shader_kwargs :: "nat \<Rightarrow> pydict"

text \<open>The state a method works on: the container \<open>self\<close>, the world, and the set
  \<open>changed\<close> that the caller passes and the methods add to.\<close>

record state =
  cont :: container
  wld :: world
  changed :: "string set"

text \<open>Sequencing: an exception ends the computation with the state reached.\<close>

definition thn ::
  "(error + 'a) \<times> 's \<Rightarrow> ('a \<Rightarrow> 's \<Rightarrow> (error + 'b) \<times> 's) \<Rightarrow> (error + 'b) \<times> 's" where
  "thn m f = (case m of (Inl e, s) \<Rightarrow> (Inl e, s) | (Inr a, s) \<Rightarrow> f a s)"

definition device_call :: "collab \<Rightarrow> gpu_call \<Rightarrow> state \<Rightarrow> (error + nat) \<times> state" where
  "device_call x c st =
     (if device_fails x c then (Inl ExternalError, st)
      else (Inr (length (gpu_calls (wld st))),
            st\<lparr>wld := (wld st)\<lparr>gpu_calls := gpu_calls (wld st) @ [c]\<rparr>\<rparr>))"

text \<open>A call on a render or compute pass.\<close>

definition pass_call :: "gpu_call \<Rightarrow> world \<Rightarrow> world" where
  "pass_call c w = w\<lparr>gpu_calls := gpu_calls w @ [c]\<rparr>"

subsection \<open>Flat resources and usage flags\<close>

definition or_usage :: "nat \<Rightarrow> nat \<Rightarrow> state \<Rightarrow> state" where
  "or_usage rid flags st =
     st\<lparr>wld := (wld st)\<lparr>wgpu_usage :=
        AList.update rid
          ((case map_of (wgpu_usage (wld st)) rid of None \<Rightarrow> 0 | Some f \<Rightarrow> f) OR flags)
          (wgpu_usage (wld st))\<rparr>\<rparr>"

text \<open>The flags of \<open>wgpu.BufferUsage\<close> and \<open>wgpu.TextureUsage\<close>.\<close>

definition INDEX :: nat where "INDEX = 16"
definition VERTEX :: nat where "VERTEX = 32"
definition UNIFORM :: nat where "UNIFORM = 64"
definition STORAGE :: nat where "STORAGE = 128"
definition TEXTURE_BINDING :: nat where "TEXTURE_BINDING = 4"
definition STORAGE_BINDING :: nat where "STORAGE_BINDING = 8"

definition collect_binding :: "binding \<Rightarrow> state \<Rightarrow> (error + (string \<times> nat) list) \<times> state" where
  "collect_binding b st =
     (if startswith (b_type b) ''buffer/'' then
        (case b_resource b of
           Buffer buf \<Rightarrow>
             (Inr [(''buffer'', buf_id buf)],
              if contains (b_type b) ''uniform'' then or_usage (buf_id buf) UNIFORM st
              else if contains (b_type b) ''storage'' then
                (if contains (b_name b) ''indices''
                 then or_usage (buf_id buf) INDEX (or_usage (buf_id buf) STORAGE st)
                 else or_usage (buf_id buf) VERTEX (or_usage (buf_id buf) STORAGE st))
              else st)
         | _ \<Rightarrow> (Inl AssertionError, st))
      else if startswith (b_type b) ''sampler/'' then
        (case b_resource b of
           TextureView tv \<Rightarrow> (Inr [(''sampler'', tv_id tv)], st)
         | _ \<Rightarrow> (Inl AssertionError, st))
      else if startswith (b_type b) ''texture/'' then
        (case b_resource b of
           TextureView tv \<Rightarrow>
             (Inr [(''texture'', tv_texture tv), (''texture_view'', tv_id tv)],
              or_usage (tv_texture tv) TEXTURE_BINDING st)
         | _ \<Rightarrow> (Inl AssertionError, st))
      else if startswith (b_type b) ''storage_texture/'' then
        (case b_resource b of
           TextureView tv \<Rightarrow>
             (Inr [(''texture'', tv_texture tv), (''texture_view'', tv_id tv)],
              or_usage (tv_texture tv) STORAGE_BINDING st)
         | _ \<Rightarrow> (Inl AssertionError, st))
      else (Inl RuntimeError, st))"

fun collect_bindings ::
  "binding list \<Rightarrow> state \<Rightarrow> (error + (string \<times> nat) list) \<times> state" where
  "collect_bindings [] st = (Inr [], st)"
| "collect_bindings (b # bs) st =
     thn (collect_binding b st) (\<lambda>r st1.
     thn (collect_bindings bs st1) (\<lambda>rs st2. (Inr (r @ rs), st2)))"

fun collect_vertex_buffers :: "buffer list \<Rightarrow> state \<Rightarrow> (string \<times> nat) list \<times> state" where
  "collect_vertex_buffers [] st = ([], st)"
| "collect_vertex_buffers (b # bs) st =
     (case collect_vertex_buffers bs (or_usage (buf_id b) (VERTEX OR STORAGE) st) of
        (rs, st') \<Rightarrow> ((''buffer'', buf_id b) # rs, st'))"

text \<open>\<open>collect_flat_resources\<close>. A value of another kind than the one the method
  works with raises \<open>AttributeError\<close>, as the attribute access on it would.\<close>

definition collect_flat_resources ::
  "resources \<Rightarrow> state \<Rightarrow> (error + (string \<times> nat) list) \<times> state" where
  "collect_flat_resources res st =
     thn (case map_of res ''index_buffer'' of
            None \<Rightarrow> (Inr [], st)
          | Some NoneValue \<Rightarrow> (Inr [], st)
          | Some (BufferValue b) \<Rightarrow>
              (Inr [(''buffer'', buf_id b)], or_usage (buf_id b) (INDEX OR STORAGE) st)
          | Some _ \<Rightarrow> (Inl AttributeError, st)) (\<lambda>r1 st1.
     thn (case map_of res ''vertex_buffers'' of
            None \<Rightarrow> (Inr [], st1)
          | Some (BuffersValue bs) \<Rightarrow>
              (case collect_vertex_buffers (map snd bs) st1 of (rs, st') \<Rightarrow> (Inr rs, st'))
          | Some _ \<Rightarrow> (Inl AttributeError, st1)) (\<lambda>r2 st2.
     thn (case map_of res ''bindings'' of
            None \<Rightarrow> (Inr [], st2)
          | Some (BindingsValue gs) \<Rightarrow> collect_bindings (concat (map (map snd \<circ> snd) gs)) st2
          | Some _ \<Rightarrow> (Inl AttributeError, st2)) (\<lambda>r3 st3.
     (Inr (r1 @ r2 @ r3), st3))))"

fun update_resources :: "collab \<Rightarrow> (string \<times> nat) list \<Rightarrow> state \<Rightarrow> (error + unit) \<times> state" where
  "update_resources x [] st = (Inr (), st)"
| "update_resources x ((k, rid) # rs) st =
     thn (device_call x (UpdateResource k rid) st) (\<lambda>_ st1. update_resources x rs st1)"

subsection \<open>Validating what the shader returns\<close>

text \<open>\<open>isinstance(x, (tuple, list))\<close>, with the items.\<close>

fun seq_items :: "pyval \<Rightarrow> pyval list option" where
  "seq_items (PTuple xs) = Some xs"
| "seq_items (PList xs) = Some xs"
| "seq_items _ = None"

text \<open>
  \<open>RenderPipelineContainer._check_render_info\<close>, on the dictionary: the result and the
  dictionary after the call (an index tuple of length 2 is replaced in place before the
  render mask is checked).
\<close>

definition check_render_info_render :: "pydict \<Rightarrow> (error + unit) \<times> pydict" where
  "check_render_info_render info =
     (if set (keys info) \<noteq> {''indices'', ''render_mask''}
      then (Inl AssertionError, info)
      else
        (case map_of info ''indices'' of
           None \<Rightarrow> (Inl KeyError, info)
         | Some indices \<Rightarrow>
             (case seq_items indices of
                None \<Rightarrow> (Inl AssertionError, info)
              | Some xs \<Rightarrow>
                  if \<not> list_all isinstance_int xs then (Inl AssertionError, info)
                  else if length xs \<notin> {2, 4, 5} then (Inl AssertionError, info)
                  else
                    let info' =
                          (if length xs = 2
                           then AList.update ''indices''
                                  (PTuple [xs ! 0, xs ! 1, PInt 0, PInt 0]) info
                           else info)
                    in (case map_of info' ''render_mask'' of
                          None \<Rightarrow> (Inl KeyError, info')
                        | Some render_mask \<Rightarrow>
                            if isinstance_int render_mask \<and> int_of render_mask \<in> {1, 2, 3}
                            then (Inr (), info')
                            else (Inl AssertionError, info')))))"

text \<open>\<open>ComputePipelineContainer._check_info\<close>, on the dictionary.\<close>

definition check_render_info_compute :: "pydict \<Rightarrow> error + unit" where
  "check_render_info_compute info =
     (if set (keys info) \<noteq> {''indices''} then Inl AssertionError
      else
        (case map_of info ''indices'' of
           None \<Rightarrow> Inl KeyError
         | Some indices \<Rightarrow>
             (case seq_items indices of
                None \<Rightarrow> Inl AssertionError
              | Some xs \<Rightarrow>
                  if \<not> list_all isinstance_int xs then Inl AssertionError
                  else if length xs \<noteq> 3 then Inl AssertionError
                  else Inr ())))"

text \<open>\<open>self._check_render_info()\<close>: \<open>render_info\<close> must be a dictionary.\<close>

definition check_render_info :: "container \<Rightarrow> (error + unit) \<times> container" where
  "check_render_info c =
     (case render_info c of
        None \<Rightarrow> (Inl AssertionError, c)
      | Some ri \<Rightarrow>
          (case kind c of
             RenderPipelineContainer \<Rightarrow>
               (case check_render_info_render ri of
                  (r, ri') \<Rightarrow> (r, c\<lparr>render_info := Some ri'\<rparr>))
           | ComputePipelineContainer \<Rightarrow> (check_render_info_compute ri, c)))"

text \<open>\<open>"strip" in topology\<close>: on a string, a sequence, or a value that supports no
  membership test.\<close>

fun contains_strip :: "pyval \<Rightarrow> error + bool" where
  "contains_strip (PStr s) = Inr (contains s ''strip'')"
| "contains_strip (PTuple xs) = Inr (PStr ''strip'' \<in> set xs)"
| "contains_strip (PList xs) = Inr (PStr ''strip'' \<in> set xs)"
| "contains_strip _ = Inl TypeError"

text \<open>\<open>update_index_buffer_format\<close>. \<open>wgpu.IndexFormat.uint32\<close> is \<open>uint32\<close>.\<close>

definition update_index_buffer_format :: "utils \<Rightarrow> container \<Rightarrow> (error + unit) \<times> container" where
  "update_index_buffer_format u c =
     (case (resources c, pipeline_info c) of
        (Some res, Some pinfo) \<Rightarrow>
          if res = [] \<or> pinfo = [] then (Inr (), c)
          else
            (case map_of res ''index_buffer'' of
               None \<Rightarrow> (Inl KeyError, c)
             | Some index_buffer \<Rightarrow>
                 (case (case index_buffer of
                          NoneValue \<Rightarrow> Inr ''uint32''
                        | BufferValue b \<Rightarrow>
                            (case to_vertex_format u (buf_format b) of
                               Inl e \<Rightarrow> Inl e
                             | Inr f \<Rightarrow>
                                 Inr (map (\<lambda>ch. if ch = CHR ''s'' then CHR ''u'' else ch)
                                        (before_sep ''x'' f)))
                        | _ \<Rightarrow> Inl AttributeError) of
                    Inl e \<Rightarrow> (Inl e, c)
                  | Inr index_format \<Rightarrow>
                      (case map_of pinfo ''primitive_topology'' of
                         None \<Rightarrow> (Inl KeyError, c)
                       | Some topology \<Rightarrow>
                           (case contains_strip topology of
                              Inl e \<Rightarrow> (Inl e, c)
                            | Inr is_strip \<Rightarrow>
                                let strip_index_format' =
                                      (if is_strip then Some index_format else None)
                                in if strip_index_format c \<noteq> strip_index_format'
                                   then (Inr (), c\<lparr>strip_index_format := strip_index_format',
                                                    wgpu_pipelines := []\<rparr>)
                                   else (Inr (), c)))))
      | _ \<Rightarrow> (Inr (), c))"

text \<open>\<open>update_vertex_buffer_descriptors\<close>. \<open>wgpu.VertexStepMode.vertex\<close> is \<open>vertex\<close>.\<close>

fun vertex_descriptors :: "utils \<Rightarrow> (nat \<times> buffer) list \<Rightarrow> error + vbo_des list" where
  "vertex_descriptors u [] = Inr []"
| "vertex_descriptors u ((slot, b) # rest) =
     (if buf_nitems b = 0 then Inl ZeroDivisionError
      else
        (case to_vertex_format u (buf_format b) of
           Inl e \<Rightarrow> Inl e
         | Inr f \<Rightarrow>
             (case vertex_descriptors u rest of
                Inl e \<Rightarrow> Inl e
              | Inr ds \<Rightarrow>
                  Inr (VertexBufferDescriptor (buf_nbytes b div buf_nitems b) ''vertex'' f slot
                        # ds))))"

definition update_vertex_buffer_descriptors ::
  "utils \<Rightarrow> container \<Rightarrow> (error + unit) \<times> container" where
  "update_vertex_buffer_descriptors u c =
     (case resources c of
        None \<Rightarrow> (Inl TypeError, c)
      | Some res \<Rightarrow>
          (case map_of res ''vertex_buffers'' of
             None \<Rightarrow> (Inl KeyError, c)
           | Some (BuffersValue bs) \<Rightarrow>
               (case vertex_descriptors u bs of
                  Inl e \<Rightarrow> (Inl e, c)
                | Inr ds \<Rightarrow>
                    if ds \<noteq> vertex_buffer_descriptors c
                    then (Inr (), c\<lparr>vertex_buffer_descriptors := ds, wgpu_pipelines := []\<rparr>)
                    else (Inr (), c))
           | Some _ \<Rightarrow> (Inl AttributeError, c)))"

text \<open>\<open>self._check_pipeline_info()\<close> of both classes.\<close>

definition check_pipeline_info :: "utils \<Rightarrow> container \<Rightarrow> (error + unit) \<times> container" where
  "check_pipeline_info u c =
     (case pipeline_info c of
        None \<Rightarrow> (Inl AssertionError, c)
      | Some pinfo \<Rightarrow>
          (case kind c of
             ComputePipelineContainer \<Rightarrow>
               (if set (keys pinfo) = {} then (Inr (), c) else (Inl AssertionError, c))
           | RenderPipelineContainer \<Rightarrow>
               (if set (keys pinfo) = {''cull_mode'', ''primitive_topology''}
                then update_index_buffer_format u c
                else (Inl AssertionError, c))))"

text \<open>\<open>self._check_resources()\<close> of both classes.\<close>

definition check_resources :: "utils \<Rightarrow> container \<Rightarrow> (error + unit) \<times> container" where
  "check_resources u c =
     (case resources c of
        None \<Rightarrow> (Inl AssertionError, c)
      | Some res \<Rightarrow>
          (case kind c of
             ComputePipelineContainer \<Rightarrow>
               (if set (keys res) = {''bindings''} then (Inr (), c) else (Inl AssertionError, c))
           | RenderPipelineContainer \<Rightarrow>
               (if set (keys res) \<noteq> {''index_buffer'', ''vertex_buffers'', ''bindings''}
                then (Inl AssertionError, c)
                else if \<not> (case map_of res ''index_buffer'' of
                               Some NoneValue \<Rightarrow> True | Some (BufferValue b) \<Rightarrow> True
                             | _ \<Rightarrow> False)
                then (Inl AssertionError, c)
                else if \<not> (case map_of res ''vertex_buffers'' of
                               Some (BuffersValue bs) \<Rightarrow> True | _ \<Rightarrow> False)
                then (Inl AssertionError, c)
                else thn (update_index_buffer_format u c)
                       (\<lambda>_ c1. update_vertex_buffer_descriptors u c1))))"

subsection \<open>Shader hash and bind groups\<close>

text \<open>\<open>update_shader_hash\<close>. The stored hash is \<open>None\<close> for the initial \<open>b""\<close>, which
  equals no digest.\<close>

definition update_shader_hash :: "container \<Rightarrow> container" where
  "update_shader_hash c =
     (if Some (hash (shader c)) \<noteq> shader_hash c
      then c\<lparr>shader_hash := Some (hash (shader c)), wgpu_shaders := []\<rparr>
      else c)"

text \<open>The descriptors of one group, over its slots in ascending order.\<close>

fun group_descriptors ::
  "utils \<Rightarrow> (nat \<times> binding) list \<Rightarrow> error + (bind_entry list \<times> layout_entry list)" where
  "group_descriptors u [] = Inr ([], [])"
| "group_descriptors u ((slot, b) # rest) =
     (case get_bind_group_descriptors u b slot of
        Inl e \<Rightarrow> Inl e
      | Inr (binding_des, binding_layout_des) \<Rightarrow>
          (case group_descriptors u rest of
             Inl e \<Rightarrow> Inl e
           | Inr (ds, ls) \<Rightarrow> Inr (binding_des # ds, binding_layout_des # ls)))"

text \<open>The loop over the groups in ascending order: both lists are padded with empty
  lists up to the group index, and the group's descriptors go to that index.\<close>

fun all_descriptors ::
  "utils \<Rightarrow> (nat \<times> (nat \<times> binding) list) list \<Rightarrow> bind_entry list list
     \<Rightarrow> layout_entry list list \<Rightarrow> error + (bind_entry list list \<times> layout_entry list list)" where
  "all_descriptors u [] bg_descriptors bg_layout_descriptors =
     Inr (bg_descriptors, bg_layout_descriptors)"
| "all_descriptors u ((group_id, bindings_dict) # rest) bg_descriptors bg_layout_descriptors =
     (let n = Suc group_id - length bg_descriptors;
          bgs = bg_descriptors @ replicate n [];
          bgls = bg_layout_descriptors @ replicate n []
      in case group_descriptors u (sort_key fst bindings_dict) of
           Inl e \<Rightarrow> Inl e
         | Inr (ds, ls) \<Rightarrow>
             all_descriptors u rest (bgs[group_id := bgs ! group_id @ ds])
               (bgls[group_id := bgls ! group_id @ ls]))"

text \<open>\<open>while bg_descriptors and not bg_descriptors[-1]\<close>: the trailing empty groups go,
  from both lists.\<close>

definition drop_trailing_empty ::
  "bind_entry list list \<times> layout_entry list list
     \<Rightarrow> bind_entry list list \<times> layout_entry list list" where
  "drop_trailing_empty p =
     (let n = length (fst p) - length (takeWhile (\<lambda>d. d = []) (rev (fst p)))
      in (take n (fst p), take (length (snd p) - (length (fst p) - n)) (snd p)))"

fun create_bind_group_layouts ::
  "collab \<Rightarrow> layout_entry list list \<Rightarrow> state \<Rightarrow> (error + unit) \<times> state" where
  "create_bind_group_layouts x [] st = (Inr (), st)"
| "create_bind_group_layouts x (d # ds) st =
     thn (device_call x (CreateBindGroupLayout d) st) (\<lambda>bind_group_layout st1.
     create_bind_group_layouts x ds
       (st1\<lparr>cont := (cont st1)\<lparr>wgpu_bind_group_layouts :=
                 wgpu_bind_group_layouts (cont st1) @ [bind_group_layout]\<rparr>\<rparr>))"

fun create_bind_groups ::
  "collab \<Rightarrow> (bind_entry list \<times> nat) list \<Rightarrow> state \<Rightarrow> (error + unit) \<times> state" where
  "create_bind_groups x [] st = (Inr (), st)"
| "create_bind_groups x ((bg_descriptor, layout) # rest) st =
     thn (device_call x (CreateBindGroup layout bg_descriptor) st) (\<lambda>bind_group st1.
     create_bind_groups x rest
       (st1\<lparr>cont := (cont st1)\<lparr>wgpu_bind_groups :=
                 wgpu_bind_groups (cont st1) @ [bind_group]\<rparr>\<rparr>))"

text \<open>\<open>update_bind_groups(device)\<close>.\<close>

definition update_bind_groups :: "collab \<Rightarrow> state \<Rightarrow> (error + unit) \<times> state" where
  "update_bind_groups x st =
     (case resources (cont st) of
        None \<Rightarrow> (Inl TypeError, st)
      | Some res \<Rightarrow>
          (case map_of res ''bindings'' of
             None \<Rightarrow> (Inl KeyError, st)
           | Some (BindingsValue binding_groups) \<Rightarrow>
               (case all_descriptors (helpers x) (sort_key fst binding_groups) [] [] of
                  Inl e \<Rightarrow> (Inl e, st)
                | Inr p \<Rightarrow>
                    let (bg_descriptors, bg_layout_descriptors) = drop_trailing_empty p
                    in thn (if bind_group_layout_descriptors (cont st) \<noteq> bg_layout_descriptors
                            then create_bind_group_layouts x bg_layout_descriptors
                                   (st\<lparr>cont := (cont st)\<lparr>
                                      bind_group_layout_descriptors := bg_layout_descriptors,
                                      wgpu_pipelines := [],
                                      wgpu_bind_group_layouts := []\<rparr>\<rparr>)
                            else (Inr (), st)) (\<lambda>_ st1.
                       create_bind_groups x
                         (zip bg_descriptors (wgpu_bind_group_layouts (cont st1)))
                         (st1\<lparr>cont := (cont st1)\<lparr>wgpu_bind_groups := []\<rparr>\<rparr>)))
           | Some _ \<Rightarrow> (Inl AttributeError, st)))"

subsection \<open>The shader data phase\<close>

text \<open>A method of the container that touches nothing else, run on the state.\<close>

definition on_cont ::
  "(container \<Rightarrow> (error + 'a) \<times> container) \<Rightarrow> state \<Rightarrow> (error + 'a) \<times> state" where
  "on_cont f st = (case f (cont st) of (r, c) \<Rightarrow> (r, st\<lparr>cont := c\<rparr>))"

text \<open>The three blocks of \<open>update_shader_data\<close>.\<close>

definition refresh_resources :: "collab \<Rightarrow> state \<Rightarrow> (error + unit) \<times> state" where
  "refresh_resources x st =
     (case shader_get_resources x (shader (cont st)) of
        (r, sh) \<Rightarrow>
          (case r of
             Inl e \<Rightarrow> (Inl e, st\<lparr>cont := (cont st)\<lparr>shader := sh\<rparr>\<rparr>)
           | Inr res \<Rightarrow>
               thn (collect_flat_resources res
                      (st\<lparr>cont := (cont st)\<lparr>shader := sh, resources := Some res\<rparr>\<rparr>))
                 (\<lambda>fr st1.
               thn (update_resources x fr (st1\<lparr>cont := (cont st1)\<lparr>flat_resources := fr\<rparr>\<rparr>))
                 (\<lambda>_ st2.
               thn (on_cont (check_resources (helpers x)) st2) (\<lambda>_ st3.
               update_bind_groups x (st3\<lparr>cont := update_shader_hash (cont st3)\<rparr>))))))"

definition refresh_pipeline_info :: "collab \<Rightarrow> state \<Rightarrow> (error + unit) \<times> state" where
  "refresh_pipeline_info x st =
     (case shader_get_pipeline_info x (shader (cont st)) of
        (r, sh) \<Rightarrow>
          (case r of
             Inl e \<Rightarrow> (Inl e, st\<lparr>cont := (cont st)\<lparr>shader := sh\<rparr>\<rparr>)
           | Inr pinfo \<Rightarrow>
               thn (on_cont (check_pipeline_info (helpers x))
                      (st\<lparr>cont := (cont st)\<lparr>shader := sh, pipeline_info := Some pinfo\<rparr>\<rparr>))
                 (\<lambda>_ st1.
                 (Inr (), st1\<lparr>changed := insert ''render_info'' (changed st1),
                               cont := (cont st1)\<lparr>wgpu_pipelines := []\<rparr>\<rparr>))))"

definition refresh_render_info :: "collab \<Rightarrow> state \<Rightarrow> (error + unit) \<times> state" where
  "refresh_render_info x st =
     (case shader_get_render_info x (shader (cont st)) of
        (r, sh) \<Rightarrow>
          (case r of
             Inl e \<Rightarrow> (Inl e, st\<lparr>cont := (cont st)\<lparr>shader := sh\<rparr>\<rparr>)
           | Inr rinfo \<Rightarrow>
               on_cont check_render_info
                 (st\<lparr>cont := (cont st)\<lparr>shader := sh, render_info := Some rinfo\<rparr>\<rparr>)))"

definition update_shader_data :: "collab \<Rightarrow> state \<Rightarrow> (error + unit) \<times> state" where
  "update_shader_data x st0 =
     (let st = (if ''create'' \<in> changed st0
                then st0\<lparr>changed := changed st0
                                       \<union> {''resources'', ''pipeline_info'', ''render_info''}\<rparr>
                else st0)
      in thn (if ''resources'' \<in> changed st then refresh_resources x st else (Inr (), st))
           (\<lambda>_ st1.
         thn (if ''pipeline_info'' \<in> changed st1 then refresh_pipeline_info x st1
              else (Inr (), st1))
           (\<lambda>_ st2.
         if ''render_info'' \<in> changed st2 then refresh_render_info x st2 else (Inr (), st2))))"

subsection \<open>The GPU object phase\<close>

text \<open>\<open>Cache.get_shader_module(device, source)\<close>.\<close>

definition get_shader_module :: "collab \<Rightarrow> string \<Rightarrow> state \<Rightarrow> (error + nat) \<times> state" where
  "get_shader_module x source st =
     (case map_of (cache_d (wld st)) source of
        Some m \<Rightarrow> (Inr m, st)
      | None \<Rightarrow>
          thn (device_call x (CreateShaderModule source) st) (\<lambda>m st1.
            (Inr m, st1\<lparr>wld := (wld st1)\<lparr>cache_d :=
                              AList.update source m (cache_d (wld st1))\<rparr>\<rparr>)))"

text \<open>\<open>self.shader.generate_wgsl(**kwargs)\<close>.\<close>

definition shader_generate_wgsl :: "collab \<Rightarrow> pydict \<Rightarrow> state \<Rightarrow> (error + string) \<times> state" where
  "shader_generate_wgsl x extra st =
     (case generate_wgsl (shader_get_code x) (jinja_render x) (shader (cont st)) extra of
        (r, sh) \<Rightarrow> (r, st\<lparr>cont := (cont st)\<lparr>shader := sh\<rparr>\<rparr>))"

text \<open>The loop of \<open>RenderPipelineContainer._compile_shaders\<close> over the passes.\<close>

fun compile_passes ::
  "collab \<Rightarrow> environment \<Rightarrow> nat list \<Rightarrow> (nat \<times> nat) list \<Rightarrow> state
     \<Rightarrow> (error + (nat \<times> nat) list) \<times> state" where
  "compile_passes x environment [] shader_modules st = (Inr shader_modules, st)"
| "compile_passes x environment (pass_index # rest) shader_modules st =
     (if color_descriptors environment pass_index = []
      then compile_passes x environment rest shader_modules st
      else
        thn (shader_generate_wgsl x (shader_kwargs environment pass_index) st) (\<lambda>wgsl st1.
        thn (get_shader_module x wgsl st1) (\<lambda>m st2.
        compile_passes x environment rest (AList.update pass_index m shader_modules) st2)))"

text \<open>\<open>self._compile_shaders(device, blender)\<close> of both classes.\<close>

definition compile_shaders ::
  "collab \<Rightarrow> environment \<Rightarrow> state \<Rightarrow> (error + (nat \<times> nat) list) \<times> state" where
  "compile_shaders x environment st =
     (case kind (cont st) of
        ComputePipelineContainer \<Rightarrow>
          thn (shader_generate_wgsl x [] st) (\<lambda>wgsl st1.
          thn (get_shader_module x wgsl st1) (\<lambda>shader_module st2.
          (Inr [(0, shader_module)], st2)))
      | RenderPipelineContainer \<Rightarrow>
          compile_passes x environment [0 ..< pass_count environment] [] st)"

text \<open>The loop of \<open>RenderPipelineContainer._compose_pipelines\<close> over the passes.\<close>

fun compose_passes ::
  "collab \<Rightarrow> environment \<Rightarrow> nat \<Rightarrow> pyval \<Rightarrow> pyval \<Rightarrow> (nat \<times> nat) list \<Rightarrow> nat list
     \<Rightarrow> (nat \<times> nat) list \<Rightarrow> state \<Rightarrow> (error + (nat \<times> nat) list) \<times> state" where
  "compose_passes x environment pipeline_layout topology cull shader_modules [] pipelines st =
     (Inr pipelines, st)"
| "compose_passes x environment pipeline_layout topology cull shader_modules
     (pass_index # rest) pipelines st =
     (if color_descriptors environment pass_index = []
      then compose_passes x environment pipeline_layout topology cull shader_modules rest
             pipelines st
      else
        (case map_of shader_modules pass_index of
           None \<Rightarrow> (Inl KeyError, st)
         | Some shader_module \<Rightarrow>
             thn (device_call x
                    (CreateRenderPipeline
                       \<lparr>rp_layout = pipeline_layout, rp_module = shader_module,
                        rp_buffers = vertex_buffer_descriptors (cont st),
                        rp_topology = topology,
                        rp_strip_index_format = strip_index_format (cont st),
                        rp_cull_mode = cull,
                        rp_depth_stencil = depth_descriptor environment pass_index,
                        rp_targets = color_descriptors environment pass_index\<rparr>) st)
               (\<lambda>p st1.
                 compose_passes x environment pipeline_layout topology cull shader_modules rest
                   (AList.update pass_index p pipelines) st1)))"

text \<open>\<open>self._compose_pipelines(device, blender, shader_modules)\<close> of both classes.\<close>

definition compose_pipelines ::
  "collab \<Rightarrow> environment \<Rightarrow> (nat \<times> nat) list \<Rightarrow> state
     \<Rightarrow> (error + (nat \<times> nat) list) \<times> state" where
  "compose_pipelines x environment shader_modules st =
     (case kind (cont st) of
        ComputePipelineContainer \<Rightarrow>
          thn (device_call x (CreatePipelineLayout (wgpu_bind_group_layouts (cont st))) st)
            (\<lambda>pipeline_layout st1.
              (case map_of shader_modules 0 of
                 None \<Rightarrow> (Inl KeyError, st1)
               | Some shader_module \<Rightarrow>
                   thn (device_call x
                          (CreateComputePipeline pipeline_layout shader_module ''main'') st1)
                     (\<lambda>pipeline st2. (Inr [(0, pipeline)], st2))))
      | RenderPipelineContainer \<Rightarrow>
          (case pipeline_info (cont st) of
             None \<Rightarrow> (Inl TypeError, st)
           | Some pinfo \<Rightarrow>
               (case map_of pinfo ''primitive_topology'' of
                  None \<Rightarrow> (Inl KeyError, st)
                | Some topology \<Rightarrow>
                    (case map_of pinfo ''cull_mode'' of
                       None \<Rightarrow> (Inl KeyError, st)
                     | Some cull \<Rightarrow>
                         thn (device_call x
                                (CreatePipelineLayout (wgpu_bind_group_layouts (cont st))) st)
                           (\<lambda>pipeline_layout st1.
                             compose_passes x environment pipeline_layout topology cull
                               shader_modules [0 ..< pass_count environment] [] st1)))))"

text \<open>\<open>update_wgpu_data\<close>: the modules and pipelines of the environment are made when
  the container has none under the environment's key.\<close>

definition update_wgpu_data ::
  "collab \<Rightarrow> environment \<Rightarrow> string \<Rightarrow> state \<Rightarrow> (error + unit) \<times> state" where
  "update_wgpu_data x environment key st =
     thn (if map_of (wgpu_shaders (cont st)) key = None then
            thn (device_call x RegisterPipelineContainer st) (\<lambda>_ st1.
            thn (compile_shaders x environment
                   (st1\<lparr>changed := insert ''compile_shader'' (changed st1)\<rparr>))
              (\<lambda>shader_modules st2.
                (Inr (), st2\<lparr>cont := (cont st2)\<lparr>wgpu_shaders :=
                     AList.update key shader_modules (wgpu_shaders (cont st2))\<rparr>\<rparr>)))
          else (Inr (), st)) (\<lambda>_ st3.
     if map_of (wgpu_pipelines (cont st3)) key = None then
       (let st4 = st3\<lparr>changed := insert ''compose_pipeline'' (changed st3)\<rparr>
        in case map_of (wgpu_shaders (cont st4)) key of
             None \<Rightarrow> (Inl KeyError, st4)
           | Some shader_modules \<Rightarrow>
               thn (compose_pipelines x environment shader_modules st4) (\<lambda>pipelines st5.
                 (Inr (), st5\<lparr>cont := (cont st5)\<lparr>wgpu_pipelines :=
                      AList.update key pipelines (wgpu_pipelines (cont st5))\<rparr>\<rparr>)))
     else (Inr (), st3))"

subsection \<open>Update, draw and dispatch\<close>

definition set_broken :: "int \<Rightarrow> state \<Rightarrow> state" where
  "set_broken b st = st\<lparr>cont := (cont st)\<lparr>broken := b\<rparr>\<rparr>"

text \<open>The key of the environment specific objects: the environment's hash for a render
  container, the empty string for a compute container.\<close>

definition env_key :: "container \<Rightarrow> environment \<Rightarrow> string" where
  "env_key c environment =
     (case kind c of RenderPipelineContainer \<Rightarrow> env_hash environment
                   | ComputePipelineContainer \<Rightarrow> [])"

text \<open>
  \<open>PipelineContainer.update(wobject, environment, shared, changed)\<close>. An exception of a
  phase is recorded in \<open>broken\<close> and raised again. The logging at the end is left out.
\<close>

definition update :: "collab \<Rightarrow> environment \<Rightarrow> state \<Rightarrow> (error + unit) \<times> state" where
  "update x environment st =
     thn (if changed st \<noteq> {} then
            (case update_shader_data x st of
               (Inl err, st') \<Rightarrow> (Inl err, set_broken 1 st')
             | (Inr _, st') \<Rightarrow> (Inr (), set_broken 0 st'))
          else (Inr (), st)) (\<lambda>_ st1.
     if broken (cont st1) = 0 then
       (case update_wgpu_data x environment (env_key (cont st) environment) st1 of
          (Inl err, st') \<Rightarrow> (Inl err, set_broken 2 st')
        | (Inr _, st') \<Rightarrow> (Inr (), set_broken 0 st'))
     else (Inr (), st1))"

text \<open>\<open>remove_env_hash(env_hash)\<close>.\<close>

definition remove_env_hash :: "string \<Rightarrow> container \<Rightarrow> container" where
  "remove_env_hash key c =
     c\<lparr>wgpu_shaders := AList.delete key (wgpu_shaders c),
       wgpu_pipelines := AList.delete key (wgpu_pipelines c)\<rparr>"

text \<open>The calls on the pass that bind the vertex buffers and the bind groups.\<close>

definition set_vertex_buffers :: "(nat \<times> buffer) list \<Rightarrow> world \<Rightarrow> world" where
  "set_vertex_buffers vbs w =
     fold (\<lambda>sb. pass_call (SetVertexBuffer (fst sb) (buf_wgpu_buffer (snd sb))
                              (fst (buf_vertex_byte_range (snd sb)))
                              (snd (buf_vertex_byte_range (snd sb))))) vbs w"

definition set_bind_groups :: "nat list \<Rightarrow> world \<Rightarrow> world" where
  "set_bind_groups bind_groups w =
     fold (\<lambda>ib. pass_call (SetBindGroup (fst ib) (snd ib))) (enumerate 0 bind_groups) w"

text \<open>\<open>RenderPipelineContainer.draw(render_pass, environment, pass_index, render_mask)\<close>.\<close>

definition draw ::
  "container \<Rightarrow> environment \<Rightarrow> nat \<Rightarrow> int \<Rightarrow> world \<Rightarrow> (error + unit) \<times> world" where
  "draw c environment pass_index render_mask w =
     (if broken c \<noteq> 0 then (Inr (), w)
      else
        (case render_info c of
           None \<Rightarrow> (Inl TypeError, w)
         | Some rinfo \<Rightarrow>
        (case map_of rinfo ''render_mask'' of
           None \<Rightarrow> (Inl KeyError, w)
         | Some own_mask \<Rightarrow>
        if \<not> isinstance_int own_mask then (Inl TypeError, w)
        else if render_mask AND int_of own_mask = 0 then (Inr (), w)
        else
        (case map_of (wgpu_pipelines c) (env_hash environment) of
           None \<Rightarrow> (Inl KeyError, w)
         | Some pipelines \<Rightarrow>
        (case map_of pipelines pass_index of
           None \<Rightarrow> (Inl KeyError, w)
         | Some pipeline \<Rightarrow>
        (case map_of rinfo ''indices'' of
           None \<Rightarrow> (Inl KeyError, w)
         | Some indices \<Rightarrow>
        (case resources c of
           None \<Rightarrow> (Inl TypeError, w)
         | Some res \<Rightarrow>
        (case map_of res ''index_buffer'' of
           None \<Rightarrow> (Inl KeyError, w)
         | Some index_buffer \<Rightarrow>
        (case map_of res ''vertex_buffers'' of
           None \<Rightarrow> (Inl KeyError, w)
         | Some vertex_buffers \<Rightarrow>
        (let w1 = pass_call (SetPipeline pipeline) w
         in case vertex_buffers of
              BuffersValue vbs \<Rightarrow>
                (let w2 = set_bind_groups (wgpu_bind_groups c) (set_vertex_buffers vbs w1)
                 in case index_buffer of
                      NoneValue \<Rightarrow>
                        (case seq_items indices of
                           None \<Rightarrow> (Inl TypeError, w2)
                         | Some xs \<Rightarrow> (Inr (), pass_call (Draw (map int_of xs)) w2))
                    | BufferValue b \<Rightarrow>
                        (let w3 = pass_call (SetIndexBuffer (buf_id b) 0 (buf_size b)) w2
                         in case seq_items indices of
                              None \<Rightarrow> (Inl TypeError, w3)
                            | Some xs \<Rightarrow>
                                (Inr (),
                                 pass_call
                                   (DrawIndexed
                                      (if length xs = 4
                                       then map int_of (take 3 xs) @ [0] @ map int_of (drop 3 xs)
                                       else map int_of xs)) w3))
                    | _ \<Rightarrow> (Inl AttributeError, w2))
            | _ \<Rightarrow> (Inl AttributeError, w1)))))))))))"

text \<open>
  \<open>self.wgpu_pipeline\<close>, as \<open>dispatch\<close> reads it. No class of the module defines an
  attribute of this name and no method assigns one (the dictionary of the pipelines is
  \<open>wgpu_pipelines\<close>), so the read raises \<open>AttributeError\<close>.
\<close>

definition read_wgpu_pipeline :: "container \<Rightarrow> error + nat" where
  "read_wgpu_pipeline c = Inl AttributeError"

text \<open>\<open>ComputePipelineContainer.dispatch(compute_pass)\<close>.\<close>

definition dispatch :: "container \<Rightarrow> world \<Rightarrow> (error + unit) \<times> world" where
  "dispatch c w =
     (if broken c \<noteq> 0 then (Inr (), w)
      else
        (case read_wgpu_pipeline c of
           Inl e \<Rightarrow> (Inl e, w)
         | Inr pipeline \<Rightarrow>
             (case render_info c of
                None \<Rightarrow> (Inl TypeError, w)
              | Some rinfo \<Rightarrow>
                  (case map_of rinfo ''indices'' of
                     None \<Rightarrow> (Inl KeyError, w)
                   | Some indices \<Rightarrow>
                       (let w2 = set_bind_groups (wgpu_bind_groups c)
                                   (pass_call (SetPipeline pipeline) w)
                        in case seq_items indices of
                             None \<Rightarrow> (Inl TypeError, w2)
                           | Some xs \<Rightarrow>
                               (Inr (), pass_call (DispatchWorkgroups (map int_of xs)) w2))))))"

subsection \<open>A concrete scene\<close>

text \<open>
  A render shader with one uniform buffer binding, a draw of three vertices without
  index buffer, an environment with one pass, and collaborators that never raise: the
  template has no placeholders and renders to itself.
\<close>

definition example_buffer :: buffer where
  "example_buffer =
     \<lparr>buf_id = 1, buf_wgpu_buffer = 21, buf_nbytes = 64, buf_nitems = 1, buf_size = 64,
      buf_format = ''4xf4'', buf_vertex_byte_range = (0, 64)\<rparr>"

definition example_shader :: shader where
  "example_shader = \<lparr>kwargs = [], typedefs = [], binding_codes = [], shader_type = ''render''\<rparr>"

definition example_code :: string where
  "example_code =
     ''fn vs_main() -> Varyings {\<newline>    var varyings: Varyings;\<newline>    varyings.position = vec4<f32>(0.0, 0.0, 0.0, 1.0);\<newline>    return varyings;\<newline>}\<newline>fn fs_main(varyings: Varyings) -> FragmentOutput {\<newline>    var out: FragmentOutput;\<newline>    return out;\<newline>}''"

definition example_get_code :: "shader \<Rightarrow> (error + string) \<times> pydict" where
  "example_get_code sh = (Inr example_code, kwargs sh)"

definition plain_render :: "string \<Rightarrow> pydict \<Rightarrow> error + string" where
  "plain_render code vars = Inr code"


definition example_resources :: resources where
  "example_resources =
     [(''index_buffer'', NoneValue), (''vertex_buffers'', BuffersValue []),
      (''bindings'', BindingsValue
         [(0, [(0, \<lparr>b_name = ''u_stdinfo'', b_type = ''buffer/uniform'',
                      b_resource = Buffer example_buffer, b_visibility = 3\<rparr>)])])]"

definition example_collab :: collab where
  "example_collab =
     \<lparr>helpers = plain_utils,
      shader_get_code = example_get_code,
      jinja_render = plain_render,
      shader_get_resources = (\<lambda>sh. (Inr example_resources, sh)),
      shader_get_pipeline_info = (\<lambda>sh.
        (Inr [(''cull_mode'', PStr ''none''), (''primitive_topology'', PStr ''triangle-list'')],
         sh)),
      shader_get_render_info = (\<lambda>sh.
        (Inr [(''indices'', PTuple [PInt 3, PInt 1]), (''render_mask'', PInt 1)], sh)),
      device_fails = (\<lambda>c. False)\<rparr>"

text \<open>The same collaborators with a shader whose \<open>get_resources\<close> raises, and with a
  device that refuses to create a shader module.\<close>

definition failing_resources_collab :: collab where
  "failing_resources_collab =
     example_collab\<lparr>shader_get_resources := (\<lambda>sh. (Inl ExternalError, sh))\<rparr>"

definition failing_device_collab :: collab where
  "failing_device_collab =
     example_collab\<lparr>device_fails := (\<lambda>c. case c of CreateShaderModule src \<Rightarrow> True | _ \<Rightarrow> False)\<rparr>"

definition example_env :: "string \<Rightarrow> environment" where
  "example_env h =
     \<lparr>env_hash = h, pass_count = 1, color_descriptors = (\<lambda>p. [''rgba8unorm'']),
      depth_descriptor = (\<lambda>p. []), shader_kwargs = (\<lambda>p. [])\<rparr>"

definition empty_world :: world where
  "empty_world = \<lparr>gpu_calls = [], cache_d = [], wgpu_usage = []\<rparr>"

text \<open>The state before the first update of the container, and the state after it.\<close>

definition created_state :: state where
  "created_state =
     \<lparr>cont = new_container RenderPipelineContainer example_shader, wld = empty_world,
      changed = {''create''}\<rparr>"


section \<open>Properties of depth output resolution\<close>

lemma contains_append: "contains b a \<Longrightarrow> contains (x @ b) a"
  by (induction x) (auto simp: prefix_def)

lemma has_depth_builtin_field: "has_depth_builtin (i @ depth_field)"
  unfolding has_depth_builtin_def
  by (rule contains_append) (simp add: depth_field_def)

lemma setter_not_struct: "re_depth_setter l \<Longrightarrow> \<not> is_struct_open l"
  by (auto simp: re_depth_setter_def is_struct_open_def startswith_def lstrip_def Let_def prefix_def)

lemma scan_depth_fst_unset:
  "\<forall>l\<in>set lines. \<not> re_depth_setter l \<Longrightarrow> fst (scan_depth lines n d s) = d"
  by (induction lines arbitrary: n s) auto

lemma scan_depth_fst_set:
  "\<exists>l\<in>set lines. re_depth_setter l \<Longrightarrow> fst (scan_depth lines n d s) = True"
proof (induction lines arbitrary: n d s)
  case Nil
  then show ?case by simp
next
  case (Cons line rest)
  show ?case
  proof (cases "re_depth_setter line")
    case True
    then have ns: "\<not> is_struct_open line" by (rule setter_not_struct)
    show ?thesis
    proof (cases "\<exists>l\<in>set rest. re_depth_setter l")
      case True
      then show ?thesis using Cons.IH by simp
    next
      case False
      then have "fst (scan_depth rest (Suc n) True s) = True"
        by (simp add: scan_depth_fst_unset)
      with True ns show ?thesis by (cases s) simp_all
    qed
  next
    case False
    with Cons.prems have "\<exists>l\<in>set rest. re_depth_setter l" by auto
    then show ?thesis using Cons.IH by simp
  qed
qed

lemma scan_depth_snd_keep:
  "\<forall>l\<in>set lines. \<not> is_struct_open l \<Longrightarrow> snd (scan_depth lines n d s) = s"
  by (induction lines arbitrary: n d s) auto

text \<open>The struct line the loop ends with is the one it started with, or the opening
  line of a struct definition among the lines scanned.\<close>

lemma scan_depth_snd_cases:
  "snd (scan_depth lines n d s) = s \<or>
   (\<exists>k<length lines. snd (scan_depth lines n d s) = Some (n + k) \<and> is_struct_open (lines ! k))"
proof (induction lines arbitrary: n d s)
  case Nil
  then show ?case by simp
next
  case (Cons line rest)
  show ?case
  proof (cases "is_struct_open line")
    case True
    from Cons.IH [of "Suc n" d "Some n"]
    show ?thesis
    proof
      assume "snd (scan_depth rest (Suc n) d (Some n)) = Some n"
      with True have "snd (scan_depth (line # rest) n d s) = Some (n + 0)
          \<and> is_struct_open ((line # rest) ! 0)"
        by simp
      then show ?thesis by blast
    next
      assume "\<exists>k<length rest. snd (scan_depth rest (Suc n) d (Some n)) = Some (Suc n + k)
                \<and> is_struct_open (rest ! k)"
      then obtain k where "k < length rest"
        "snd (scan_depth rest (Suc n) d (Some n)) = Some (Suc n + k)"
        "is_struct_open (rest ! k)" by blast
      with True have "Suc k < length (line # rest)
          \<and> snd (scan_depth (line # rest) n d s) = Some (n + Suc k)
          \<and> is_struct_open ((line # rest) ! Suc k)" by simp
      then show ?thesis by blast
    qed
  next
    case False
    have step: "snd (scan_depth (line # rest) n d s) = s \<or>
       (\<exists>d'. scan_depth (line # rest) n d s = scan_depth rest (Suc n) d' s)"
    proof (cases "re_depth_setter line")
      case setter: True
      show ?thesis
      proof (cases s)
        case None
        with False setter
        have "scan_depth (line # rest) n d s = scan_depth rest (Suc n) True s" by simp
        then show ?thesis by blast
      next
        case (Some k)
        with False setter show ?thesis by simp
      qed
    next
      case no_setter: False
      with False
      have "scan_depth (line # rest) n d s = scan_depth rest (Suc n) d s" by simp
      then show ?thesis by blast
    qed
    show ?thesis
    proof (cases "snd (scan_depth (line # rest) n d s) = s")
      case True
      then show ?thesis by simp
    next
      case ne: False
      with step obtain d' where
        eq: "scan_depth (line # rest) n d s = scan_depth rest (Suc n) d' s"
        by blast
      from Cons.IH [of "Suc n" d' s] ne eq
      obtain k where "k < length rest"
        "snd (scan_depth rest (Suc n) d' s) = Some (Suc n + k)"
        "is_struct_open (rest ! k)" by auto
      with eq have "Suc k < length (line # rest)
          \<and> snd (scan_depth (line # rest) n d s) = Some (n + Suc k)
          \<and> is_struct_open ((line # rest) ! Suc k)" by simp
      then show ?thesis by blast
    qed
  qed
qed

lemma scan_depth_snd_found:
  "s \<noteq> None \<or> (\<exists>l\<in>set lines. is_struct_open l) \<Longrightarrow> snd (scan_depth lines n d s) \<noteq> None"
proof (induction lines arbitrary: n d s)
  case Nil
  then show ?case by simp
next
  case (Cons line rest)
  show ?case
  proof (cases "is_struct_open line")
    case True
    have "snd (scan_depth rest (Suc n) d (Some n)) \<noteq> None"
      by (rule Cons.IH) simp
    with True show ?thesis by simp
  next
    case False
    with Cons.prems have p: "s \<noteq> None \<or> (\<exists>l\<in>set rest. is_struct_open l)" by auto
    then have a: "snd (scan_depth rest (Suc n) d s) \<noteq> None" by (rule Cons.IH)
    from p have b: "snd (scan_depth rest (Suc n) True s) \<noteq> None" by (rule Cons.IH)
    from False a b show ?thesis by (cases s) simp_all
  qed
qed

lemma resolve_depth_lines_unset:
  assumes "\<forall>l\<in>set lines. \<not> re_depth_setter l"
  shows "resolve_depth_lines lines = Inr lines"
proof -
  from assms have "fst (scan_depth lines 0 False None) = False"
    by (rule scan_depth_fst_unset)
  then show ?thesis
    by (cases "scan_depth lines 0 False None") (simp add: resolve_depth_lines_def)
qed

lemma resolve_depth_lines_no_struct:
  assumes "\<exists>l\<in>set lines. re_depth_setter l" and "\<forall>l\<in>set lines. \<not> is_struct_open l"
  shows "resolve_depth_lines lines = Inl TypeError"
proof -
  from assms(1) have "fst (scan_depth lines 0 False None) = True"
    by (rule scan_depth_fst_set)
  moreover from assms(2) have "snd (scan_depth lines 0 False None) = None"
    by (rule scan_depth_snd_keep)
  ultimately show ?thesis
    by (cases "scan_depth lines 0 False None") (simp add: resolve_depth_lines_def)
qed

lemma resolve_depth_lines_insert:
  assumes "\<exists>l\<in>set lines. re_depth_setter l" and "\<exists>l\<in>set lines. is_struct_open l"
  shows "\<exists>k<length lines. is_struct_open (lines ! k) \<and>
           resolve_depth_lines lines =
             Inr (take (Suc k) lines @ [indent_of (lines ! k) @ depth_field] @ drop (Suc k) lines)"
proof -
  from assms(1) have f: "fst (scan_depth lines 0 False None) = True"
    by (rule scan_depth_fst_set)
  from assms(2) have "snd (scan_depth lines 0 False None) \<noteq> None"
    by (simp add: scan_depth_snd_found)
  with scan_depth_snd_cases [of lines 0 False None]
  obtain k where k: "k < length lines" "snd (scan_depth lines 0 False None) = Some k"
    "is_struct_open (lines ! k)" by auto
  from f k(2) have "resolve_depth_lines lines =
      Inr (take (Suc k) lines @ [indent_of (lines ! k) @ depth_field] @ drop (Suc k) lines)"
    by (cases "scan_depth lines 0 False None") (simp add: resolve_depth_lines_def list_insert_def)
  with k show ?thesis by blast
qed

text \<open>
  C9 (amended). Depth output resolution, on the lines of the source after trimming the
  blank lines at both ends. A line assigns the depth when it starts, after optional
  whitespace, with \<open>out.depth\<close>, optional whitespace and an equals sign. If no line
  does, the output is these lines joined by newlines. If one does and no line opens a
  \<open>FragmentOutput\<close> struct, resolution fails with a \<open>TypeError\<close>. If one does and a
  struct is opened, the output is the source with exactly one depth builtin line
  inserted directly after a struct opening line, indented like that line: the output
  has one more line declaring the depth builtin than the source had.
\<close>

theorem resolve_depth_output_inserts_one_field:
  "((\<forall>l\<in>set (prepare_lines wgsl). \<not> re_depth_setter l) \<longrightarrow>
      resolve_depth_output wgsl = Inr (join ''\<newline>'' (prepare_lines wgsl)))
   \<and> ((\<exists>l\<in>set (prepare_lines wgsl). re_depth_setter l) \<and>
       (\<forall>l\<in>set (prepare_lines wgsl). \<not> is_struct_open l) \<longrightarrow>
      resolve_depth_output wgsl = Inl TypeError)
   \<and> ((\<exists>l\<in>set (prepare_lines wgsl). re_depth_setter l) \<and>
       (\<exists>l\<in>set (prepare_lines wgsl). is_struct_open l) \<longrightarrow>
      (\<exists>k<length (prepare_lines wgsl). \<exists>out.
         is_struct_open (prepare_lines wgsl ! k) \<and>
         out = take (Suc k) (prepare_lines wgsl)
                 @ [indent_of (prepare_lines wgsl ! k) @ depth_field]
                 @ drop (Suc k) (prepare_lines wgsl) \<and>
         resolve_depth_output wgsl = Inr (join ''\<newline>'' out) \<and>
         length (filter has_depth_builtin out)
           = Suc (length (filter has_depth_builtin (prepare_lines wgsl)))))"
proof (intro conjI impI)
  assume "\<forall>l\<in>set (prepare_lines wgsl). \<not> re_depth_setter l"
  then show "resolve_depth_output wgsl = Inr (join ''\<newline>'' (prepare_lines wgsl))"
    by (simp add: resolve_depth_output_def resolve_depth_lines_unset)
next
  assume "(\<exists>l\<in>set (prepare_lines wgsl). re_depth_setter l) \<and>
          (\<forall>l\<in>set (prepare_lines wgsl). \<not> is_struct_open l)"
  then show "resolve_depth_output wgsl = Inl TypeError"
    by (simp add: resolve_depth_output_def resolve_depth_lines_no_struct)
next
  let ?L = "prepare_lines wgsl"
  assume "(\<exists>l\<in>set ?L. re_depth_setter l) \<and> (\<exists>l\<in>set ?L. is_struct_open l)"
  then obtain k where k: "k < length ?L" "is_struct_open (?L ! k)"
    "resolve_depth_lines ?L =
       Inr (take (Suc k) ?L @ [indent_of (?L ! k) @ depth_field] @ drop (Suc k) ?L)"
    using resolve_depth_lines_insert [of ?L] by blast
  let ?out = "take (Suc k) ?L @ [indent_of (?L ! k) @ depth_field] @ drop (Suc k) ?L"
  have "filter has_depth_builtin (take (Suc k) ?L) @ filter has_depth_builtin (drop (Suc k) ?L)
      = filter has_depth_builtin ?L"
    by (simp only: filter_append [symmetric] append_take_drop_id)
  then have "length (filter has_depth_builtin (take (Suc k) ?L))
      + length (filter has_depth_builtin (drop (Suc k) ?L))
      = length (filter has_depth_builtin ?L)"
    by (metis length_append)
  then have cnt: "length (filter has_depth_builtin ?out)
      = Suc (length (filter has_depth_builtin ?L))"
    by (simp add: has_depth_builtin_field)
  from k(3) have "resolve_depth_output wgsl = Inr (join ''\<newline>'' ?out)"
    by (simp add: resolve_depth_output_def)
  with k(1,2) cnt
  show "\<exists>k<length ?L. \<exists>out. is_struct_open (?L ! k) \<and>
         out = take (Suc k) ?L @ [indent_of (?L ! k) @ depth_field] @ drop (Suc k) ?L \<and>
         resolve_depth_output wgsl = Inr (join ''\<newline>'' out) \<and>
         length (filter has_depth_builtin out) = Suc (length (filter has_depth_builtin ?L))"
    by blast
qed

theorem resolve_depth_output_inserts_one_field_witness:
  "\<exists>k<length (prepare_lines depth_example_src).
     resolve_depth_output depth_example_src =
       Inr (join ''\<newline>'' (take (Suc k) (prepare_lines depth_example_src)
              @ [indent_of (prepare_lines depth_example_src ! k) @ depth_field]
              @ drop (Suc k) (prepare_lines depth_example_src)))"
proof -
  have s: "\<exists>l\<in>set (prepare_lines depth_example_src). re_depth_setter l"
    by code_simp
  have t: "\<exists>l\<in>set (prepare_lines depth_example_src). is_struct_open l"
    by code_simp
  from s t resolve_depth_output_inserts_one_field [of depth_example_src]
  show ?thesis by blast
qed

text \<open>
  C9 as stated fails where the struct already declares the depth builtin: the field
  is inserted all the same, and the output declares it twice.
\<close>

theorem resolve_depth_output_two_fields:
  "resolve_depth_output depth_declared_twice_src =
     Inr ''struct FragmentOutput {\<newline>    @builtin(frag_depth) depth : f32,\<newline>    @builtin(frag_depth) depth : f32,\<newline>};\<newline>out.depth = 0.5;\<newline>''
   \<and> length (filter has_depth_builtin (splitlines
        ''struct FragmentOutput {\<newline>    @builtin(frag_depth) depth : f32,\<newline>    @builtin(frag_depth) depth : f32,\<newline>};\<newline>out.depth = 0.5;\<newline>'')) = 2"
  by code_simp

section \<open>Properties of varying resolution\<close>




lemma scan_setters_Cons_None:
  "re_varying_setter line = None \<Longrightarrow> scan_setters (line # rest) n v = scan_setters rest (Suc n) v"
  by simp



















text \<open>
  C7. The loop that comments out an unused assignment looks for a line that ends with a
  semicolon, and does not drop a trailing comment first (the second loop does). An
  unused assignment that is terminated but followed by a comment is therefore taken as
  unterminated: resolution raises the missing-semicolon \<open>TypeError\<close> when the next line
  closes the function, and comments out the following statement otherwise. Without the
  comment the assignment alone is commented out.
\<close>

theorem unused_assignment_with_trailing_comment:
  "resolve_varyings no_trailing_comment_src =
       Inr ''fn vs_main() {\<newline>    // unused: varyings.x = f32(1.0);\<newline>    out.y = 2.0;\<newline>}\<newline>''
   \<and> resolve_varyings trailing_comment_src = Inl TypeError
   \<and> resolve_varyings trailing_comment_spill_src =
       Inr ''fn vs_main() {\<newline>    // unused: varyings.x = f32(1.0); // set x\<newline>    // out.y = 2.0;\<newline>}\<newline>''"
  by code_simp


section \<open>Properties of the shader hash and of source generation\<close>

lemma encode_append: "encode (a @ b) = encode a @ encode b"
  by (simp add: encode_def)

lemma hash_via_text: "hash self = sha1_hexdigest (encode (hash_text self))"
  by (simp add: hash_def hash_text_def encode_append)

lemma of_char_nat_less: "(of_char c :: nat) < 256"
proof -
  have "(of_char c :: nat) mod 256 = of_char c" by (rule of_char_mod_256)
  then show ?thesis by (metis mod_less_divisor zero_less_numeral)
qed

lemma utf8_char_cases:
  "utf8_char c = [c] \<and> (of_char c :: nat) < 128 \<or>
   (\<exists>a b. utf8_char c = [a, b] \<and> \<not> (of_char a :: nat) < 128
        \<and> char_of (64 * ((of_char a :: nat) - 192) + ((of_char b :: nat) - 128)) = c)"
proof (cases "(of_char c :: nat) < 128")
  case True
  then show ?thesis by (simp add: utf8_char_def)
next
  case False
  let ?n = "of_char c :: nat"
  have lt: "?n < 256" by (rule of_char_nat_less)
  then have "?n div 64 < 4" by (simp add: div_less_iff_less_mult)
  then have a: "192 + ?n div 64 < 256" by simp
  have b: "128 + ?n mod 64 < 256" by simp
  from a have oa: "(of_char (char_of (192 + ?n div 64)) :: nat) = 192 + ?n div 64"
    by simp
  from b have ob: "(of_char (char_of (128 + ?n mod 64)) :: nat) = 128 + ?n mod 64"
    by simp
  have "char_of (64 * (?n div 64) + ?n mod 64) = c" by simp
  with False oa ob show ?thesis
    by (simp add: utf8_char_def)
qed

lemma utf8_decode_encode: "utf8_decode (encode s) = s"
proof (induction s)
  case Nil
  then show ?case by (simp add: encode_def)
next
  case (Cons c s)
  have e: "encode (c # s) = utf8_char c @ encode s" by (simp add: encode_def)
  from utf8_char_cases [of c] show ?case
  proof
    assume "utf8_char c = [c] \<and> (of_char c :: nat) < 128"
    with e Cons show ?thesis by (cases "encode s") simp_all
  next
    assume "\<exists>a b. utf8_char c = [a, b] \<and> \<not> (of_char a :: nat) < 128
        \<and> char_of (64 * ((of_char a :: nat) - 192) + ((of_char b :: nat) - 128)) = c"
    with e Cons show ?thesis by auto
  qed
qed

lemma encode_inj: "encode a = encode b \<longleftrightarrow> a = b"
  by (metis utf8_decode_encode)

lemma join_middle:
  "join sep (xs @ y # zs) =
     concat (map (\<lambda>x. x @ sep) xs) @ y @ concat (map (\<lambda>z. sep @ z) zs)"
proof (induction xs)
  case Nil
  show ?case
  proof (induction zs arbitrary: y)
    case Nil
    then show ?case by simp
  next
    case (Cons z zs)
    then show ?case by simp
  qed
next
  case (Cons x xs)
  then show ?case by (cases xs) simp_all
qed

lemma hash_text_one_variable:
  "hash_text (self\<lparr>kwargs := pre @ (k, v') # post\<rparr>)
     = hash_text (self\<lparr>kwargs := pre @ (k, v) # post\<rparr>) \<longleftrightarrow> repr v' = repr v"
  by (simp add: hash_text_def repr_dict_def join_middle repr_item_def code_definitions_def)

text \<open>
  C6 (amended). \<open>hash()\<close> is the SHA-1 digest of the UTF-8 bytes of one text: the
  \<open>repr\<close> of the template variables followed by the type definition fragments joined by
  newlines, a newline, and the binding fragments joined by newlines. Shaders with the
  same variables (in the same order) and the same fragments (in the same order) hash
  identically, and so do any two shaders whose texts coincide. Changing the value of one
  template variable changes the digested bytes exactly when the \<open>repr\<close> of the value
  changes (the hash then differs unless SHA-1 collides).
\<close>

theorem hash_digests_text:
  "hash self = sha1_hexdigest (encode (hash_text self))
   \<and> (kwargs s1 = kwargs s2 \<and> map snd (typedefs s1) = map snd (typedefs s2) \<and>
      map snd (binding_codes s1) = map snd (binding_codes s2) \<longrightarrow> hash s1 = hash s2)
   \<and> (hash_text s1 = hash_text s2 \<longrightarrow> hash s1 = hash s2)
   \<and> (kwargs self = pre @ (k, v) # post \<longrightarrow>
      (encode (hash_text (self\<lparr>kwargs := pre @ (k, v') # post\<rparr>)) = encode (hash_text self))
        = (repr v' = repr v))"
proof (intro conjI impI)
  show "hash self = sha1_hexdigest (encode (hash_text self))" by (rule hash_via_text)
next
  assume "kwargs s1 = kwargs s2 \<and> map snd (typedefs s1) = map snd (typedefs s2) \<and>
      map snd (binding_codes s1) = map snd (binding_codes s2)"
  then show "hash s1 = hash s2" by (simp add: hash_def code_definitions_def)
next
  assume "hash_text s1 = hash_text s2"
  then show "hash s1 = hash s2" by (simp add: hash_via_text)
next
  assume "kwargs self = pre @ (k, v) # post"
  then have "self = self\<lparr>kwargs := pre @ (k, v) # post\<rparr>" by simp
  then have "hash_text self = hash_text (self\<lparr>kwargs := pre @ (k, v) # post\<rparr>)" by simp
  then show "(encode (hash_text (self\<lparr>kwargs := pre @ (k, v') # post\<rparr>)) = encode (hash_text self))
        = (repr v' = repr v)"
    by (simp only: encode_inj hash_text_one_variable)
qed

theorem hash_digests_text_witness:
  "encode (hash_text (split_shader_a\<lparr>kwargs := [(''n_clipping_planes'', PInt 1)]\<rparr>))
     \<noteq> encode (hash_text split_shader_a)"
proof -
  have k: "kwargs split_shader_a = [] @ (''n_clipping_planes'', PInt 0) # []"
    by (simp add: split_shader_a_def)
  have r: "repr (PInt 1) \<noteq> repr (PInt 0)" by code_simp
  from k r hash_digests_text [of split_shader_a _ _ "[]" "''n_clipping_planes''" "PInt 0" "[]" "PInt 1"]
  show ?thesis by simp
qed

text \<open>
  C6 as stated fails: the fragments are joined without recording where one ends, so
  two shaders that register different type definition and binding fragments can digest
  the same text, and then hash identically whatever the digest function.
\<close>

theorem different_fragments_same_hash:
  "hash split_shader_a = hash split_shader_b
   \<and> kwargs split_shader_a = kwargs split_shader_b
   \<and> map snd (typedefs split_shader_a) \<noteq> map snd (typedefs split_shader_b)
   \<and> map snd (binding_codes split_shader_a) \<noteq> map snd (binding_codes split_shader_b)"
proof -
  have "hash_text split_shader_a = hash_text split_shader_b"
    by (simp add: hash_text_def code_definitions_def split_shader_a_def split_shader_b_def)
  then have "hash split_shader_a = hash split_shader_b" by (simp add: hash_via_text)
  then show ?thesis by (simp add: split_shader_a_def split_shader_b_def)
qed

text \<open>
  C10. \<open>generate_wgsl\<close> leaves the shader as it was, whatever the extra variables,
  whatever \<open>get_code\<close> and the template engine do, and whether it returns text or
  raises: the template variables are the ones before the call, and so is the hash.
\<close>

theorem generate_wgsl_restores_kwargs:
  "kwargs (snd (generate_wgsl get_code render self extra)) = kwargs self
   \<and> snd (generate_wgsl get_code render self extra) = self
   \<and> hash (snd (generate_wgsl get_code render self extra)) = hash self"
proof -
  have "snd (generate_wgsl get_code render self extra) = self"
    by (simp add: generate_wgsl_def Let_def split: prod.splits)
  then show ?thesis by simp
qed


section \<open>Properties of bindings\<close>

text \<open>
  C5. For a binding of type \<open>texture/auto\<close> on a texture view, the layout entry's sample
  type follows from the texel format (the view's format through \<open>to_texture_format\<close>
  and \<open>ALTTEXFORMAT\<close>): \<open>float\<close> if it contains \<open>float\<close> or \<open>norm\<close>, otherwise \<open>uint\<close>
  if it contains \<open>uint\<close>, otherwise \<open>sint\<close> if it contains \<open>sint\<close>, otherwise \<open>depth\<close> if
  it contains \<open>depth\<close>, and otherwise the derivation raises \<open>ValueError\<close>.
\<close>

theorem texture_auto_sample_type:
  assumes "b_type self = ''texture/auto''"
    and "b_resource self = TextureView tv"
    and "texel_format u (tv_format tv) = Inr fmt"
  shows "get_bind_group_descriptors u self slot =
     (if contains fmt ''float'' \<or> contains fmt ''norm'' then
        Inr (ResourceBinding slot (tv_wgpu_texture_view tv),
             TextureLayout slot (b_visibility self) ''float''
               (getattr_default TextureViewDimension (tv_view_dim tv) (tv_view_dim tv)) False)
      else if contains fmt ''uint'' then
        Inr (ResourceBinding slot (tv_wgpu_texture_view tv),
             TextureLayout slot (b_visibility self) ''uint''
               (getattr_default TextureViewDimension (tv_view_dim tv) (tv_view_dim tv)) False)
      else if contains fmt ''sint'' then
        Inr (ResourceBinding slot (tv_wgpu_texture_view tv),
             TextureLayout slot (b_visibility self) ''sint''
               (getattr_default TextureViewDimension (tv_view_dim tv) (tv_view_dim tv)) False)
      else if contains fmt ''depth'' then
        Inr (ResourceBinding slot (tv_wgpu_texture_view tv),
             TextureLayout slot (b_visibility self) ''depth''
               (getattr_default TextureViewDimension (tv_view_dim tv) (tv_view_dim tv)) False)
      else Inl ValueError)"
proof -
  have sub: "after_sep ''/'' ''texture/auto'' = ''auto''" by simp
  have st: "getattr_default TextureSampleType ''auto'' ''auto'' = ''auto''"
    by (simp add: getattr_default_def TextureSampleType_def)
  from assms sub st show ?thesis
    by (simp add: get_bind_group_descriptors_def startswith_def Let_def auto_sample_type_def)
qed

theorem texture_auto_sample_type_witness:
  "get_bind_group_descriptors plain_utils (auto_binding ''rgba8unorm'') 0 =
     Inr (ResourceBinding 0 12, TextureLayout 0 3 ''float'' ''2d'' False)
   \<and> get_bind_group_descriptors plain_utils (auto_binding ''r32uint'') 0 =
     Inr (ResourceBinding 0 12, TextureLayout 0 3 ''uint'' ''2d'' False)
   \<and> get_bind_group_descriptors plain_utils (auto_binding ''depth24plus'') 0 =
     Inr (ResourceBinding 0 12, TextureLayout 0 3 ''depth'' ''2d'' False)
   \<and> get_bind_group_descriptors plain_utils (auto_binding ''stencil8'') 0 = Inl ValueError"
proof -
  have t: "b_type (auto_binding f) = ''texture/auto''" for f
    by (simp add: auto_binding_def)
  have r: "b_resource (auto_binding f) = TextureView (example_view\<lparr>tv_format := f\<rparr>)" for f
    by (simp add: auto_binding_def)
  have x: "texel_format plain_utils (tv_format (example_view\<lparr>tv_format := f\<rparr>)) = Inr f" for f
    by (simp add: texel_format_def plain_utils_def)
  have d: "getattr_default TextureViewDimension ''2d'' ''2d'' = ''2d''"
    by (simp add: getattr_default_def TextureViewDimension_def)
  have v: "b_visibility (auto_binding f) = 3" for f by (simp add: auto_binding_def)
  note th = texture_auto_sample_type [OF t r x]
  show ?thesis
    by (simp add: th [of "''rgba8unorm''"] th [of "''r32uint''"] th [of "''depth24plus''"]
          th [of "''stencil8''"] d v example_view_def)
qed

section \<open>Properties of pipeline containers\<close>
















text \<open>
  C1. A broken container makes \<open>draw\<close> and \<open>dispatch\<close> return at once, with no call on
  the pass. An exception of the shader data phase sets \<open>broken\<close> to 1, one of the GPU
  object phase sets it to 2, and \<open>update\<close> raises the same exception. A broken container
  stays as it is when nothing changed, and \<open>broken\<close> clears exactly when an update runs
  both phases without an exception.
\<close>

theorem broken_flag_protocol:
  "(broken c \<noteq> 0 \<longrightarrow>
      draw c environment pass_index render_mask w = (Inr (), w) \<and> dispatch c w = (Inr (), w))
   \<and> (changed st \<noteq> {} \<and> update_shader_data x st = (Inl e, st1) \<longrightarrow>
      update x environment st = (Inl e, set_broken 1 st1))
   \<and> (changed st \<noteq> {} \<and> update_shader_data x st = (Inr (), st1) \<and>
      update_wgpu_data x environment (env_key (cont st) environment) (set_broken 0 st1)
        = (Inl e, st2) \<longrightarrow>
      update x environment st = (Inl e, set_broken 2 st2))
   \<and> (changed st \<noteq> {} \<and> update_shader_data x st = (Inr (), st1) \<and>
      update_wgpu_data x environment (env_key (cont st) environment) (set_broken 0 st1)
        = (Inr (), st2) \<longrightarrow>
      update x environment st = (Inr (), set_broken 0 st2))
   \<and> (changed st = {} \<and> broken (cont st) \<noteq> 0 \<longrightarrow> update x environment st = (Inr (), st))
   \<and> (changed st = {} \<and> broken (cont st) = 0 \<and>
      update_wgpu_data x environment (env_key (cont st) environment) st = (Inl e, st2) \<longrightarrow>
      update x environment st = (Inl e, set_broken 2 st2))
   \<and> (broken (cont st) \<noteq> 0 \<longrightarrow>
      (broken (cont (snd (update x environment st))) = 0) =
      (changed st \<noteq> {} \<and> fst (update_shader_data x st) = Inr () \<and>
       fst (update_wgpu_data x environment (env_key (cont st) environment)
              (set_broken 0 (snd (update_shader_data x st)))) = Inr ()))"
proof (intro conjI impI)
  assume "broken c \<noteq> 0"
  then show "draw c environment pass_index render_mask w = (Inr (), w)"
    by (simp add: draw_def)
next
  assume "broken c \<noteq> 0"
  then show "dispatch c w = (Inr (), w)" by (simp add: dispatch_def)
next
  assume "changed st \<noteq> {} \<and> update_shader_data x st = (Inl e, st1)"
  then show "update x environment st = (Inl e, set_broken 1 st1)"
    by (simp add: update_def thn_def)
next
  assume "changed st \<noteq> {} \<and> update_shader_data x st = (Inr (), st1) \<and>
      update_wgpu_data x environment (env_key (cont st) environment) (set_broken 0 st1)
        = (Inl e, st2)"
  then show "update x environment st = (Inl e, set_broken 2 st2)"
    by (simp add: update_def thn_def set_broken_def)
next
  assume "changed st \<noteq> {} \<and> update_shader_data x st = (Inr (), st1) \<and>
      update_wgpu_data x environment (env_key (cont st) environment) (set_broken 0 st1)
        = (Inr (), st2)"
  then show "update x environment st = (Inr (), set_broken 0 st2)"
    by (simp add: update_def thn_def set_broken_def)
next
  assume "changed st = {} \<and> broken (cont st) \<noteq> 0"
  then show "update x environment st = (Inr (), st)"
    by (simp add: update_def thn_def)
next
  assume "changed st = {} \<and> broken (cont st) = 0 \<and>
      update_wgpu_data x environment (env_key (cont st) environment) st = (Inl e, st2)"
  then show "update x environment st = (Inl e, set_broken 2 st2)"
    by (simp add: update_def thn_def)
next
  assume b: "broken (cont st) \<noteq> 0"
  show "(broken (cont (snd (update x environment st))) = 0) =
      (changed st \<noteq> {} \<and> fst (update_shader_data x st) = Inr () \<and>
       fst (update_wgpu_data x environment (env_key (cont st) environment)
              (set_broken 0 (snd (update_shader_data x st)))) = Inr ())"
  proof (cases "changed st = {}")
    case True
    with b show ?thesis by (simp add: update_def thn_def)
  next
    case False
    obtain r1 s1 where p1: "update_shader_data x st = (r1, s1)"
      by (cases "update_shader_data x st")
    obtain r2 s2 where p2: "update_wgpu_data x environment (env_key (cont st) environment)
        (set_broken 0 s1) = (r2, s2)"
      by (cases "update_wgpu_data x environment (env_key (cont st) environment)
        (set_broken 0 s1)")
    from False p1 p2 show ?thesis
      by (cases r1; cases r2) (simp_all add: update_def thn_def set_broken_def)
  qed
qed

theorem broken_flag_protocol_witness:
  "fst (update failing_resources_collab (example_env ''env1'') created_state) = Inl ExternalError
   \<and> broken (cont (snd (update failing_resources_collab (example_env ''env1'') created_state)))
       = 1"
proof -
  have c: "changed created_state \<noteq> {}" by (simp add: created_state_def)
  have f: "fst (update_shader_data failing_resources_collab created_state) = Inl ExternalError"
    by (simp add: update_shader_data_def refresh_resources_def thn_def Let_def
          failing_resources_collab_def created_state_def)
  then have "update_shader_data failing_resources_collab created_state
      = (Inl ExternalError, snd (update_shader_data failing_resources_collab created_state))"
    by (metis prod.collapse)
  with c broken_flag_protocol
    [where st = created_state and x = failing_resources_collab and e = ExternalError
       and ?st1.0 = "snd (update_shader_data failing_resources_collab created_state)"
       and environment = "example_env ''env1''"]
  have "update failing_resources_collab (example_env ''env1'') created_state
      = (Inl ExternalError,
         set_broken 1 (snd (update_shader_data failing_resources_collab created_state)))"
    by blast
  then show ?thesis by (simp add: set_broken_def)
qed





text \<open>
  C3. \<open>dispatch\<close> on a container that is not broken reads \<open>self.wgpu_pipeline\<close>, an
  attribute that does not exist: it raises \<open>AttributeError\<close> before any call on the pass.
\<close>

theorem dispatch_raises_attribute_error:
  "dispatch c w = (if broken c \<noteq> 0 then (Inr (), w) else (Inl AttributeError, w))"
  by (simp add: dispatch_def read_wgpu_pipeline_def)

text \<open>
  C4 (amended). For a render container, a \<open>render_info\<close> with exactly the keys
  \<open>indices\<close> and \<open>render_mask\<close>, whose indices are a tuple or list of integers, passes
  when the indices have length 2, 4 or 5 and the mask is 1, 2 or 3; indices \<open>(a, b)\<close>
  are replaced by \<open>(a, b, 0, 0)\<close>, longer ones are left as they are, and any other
  length or mask is an \<open>AssertionError\<close>. For a compute container, a \<open>render_info\<close>
  with exactly the key \<open>indices\<close>, a tuple or list of integers, passes when there are
  exactly 3 of them, of any sign, and is an \<open>AssertionError\<close> otherwise.
\<close>

theorem check_render_info_shapes:
  "(set (keys info) = {''indices'', ''render_mask''} \<and> map_of info ''indices'' = Some ind \<and>
    seq_items ind = Some xs \<and> list_all isinstance_int xs \<and>
    map_of info ''render_mask'' = Some m \<longrightarrow>
    check_render_info_render info =
      (if length xs \<notin> {2, 4, 5} then (Inl AssertionError, info)
       else if isinstance_int m \<and> int_of m \<in> {1, 2, 3}
       then (Inr (), if length xs = 2
                     then AList.update ''indices'' (PTuple [xs ! 0, xs ! 1, PInt 0, PInt 0]) info
                     else info)
       else (Inl AssertionError,
             if length xs = 2
             then AList.update ''indices'' (PTuple [xs ! 0, xs ! 1, PInt 0, PInt 0]) info
             else info)))
   \<and> (set (keys info) = {''indices''} \<and> map_of info ''indices'' = Some ind \<and>
      seq_items ind = Some xs \<and> list_all isinstance_int xs \<longrightarrow>
      check_render_info_compute info = (if length xs = 3 then Inr () else Inl AssertionError))"
  by (auto simp: check_render_info_render_def check_render_info_compute_def Let_def
        update_conv')

theorem check_render_info_shapes_witness:
  "check_render_info_render [(''indices'', PTuple [PInt 3, PInt 1]), (''render_mask'', PInt 1)]
     = (Inr (), [(''indices'', PTuple [PInt 3, PInt 1, PInt 0, PInt 0]), (''render_mask'', PInt 1)])"
proof -
  let ?info = "[(''indices'', PTuple [PInt 3, PInt 1]), (''render_mask'', PInt 1)]"
  have "set (keys ?info) = {''indices'', ''render_mask''} \<and>
    map_of ?info ''indices'' = Some (PTuple [PInt 3, PInt 1]) \<and>
    seq_items (PTuple [PInt 3, PInt 1]) = Some [PInt 3, PInt 1] \<and>
    list_all isinstance_int [PInt 3, PInt 1] \<and> map_of ?info ''render_mask'' = Some (PInt 1)"
    by (simp add: keys_def)
  with check_render_info_shapes
    [where info = ?info and ind = "PTuple [PInt 3, PInt 1]" and xs = "[PInt 3, PInt 1]"
       and m = "PInt 1"]
  show ?thesis by simp
qed

text \<open>C4 as stated fails for the compute container: the sign of the three integers
  is not checked.\<close>

theorem check_render_info_accepts_negative:
  "check_render_info_compute [(''indices'', PTuple [PInt (- 1), PInt 1, PInt 1])] = Inr ()"
  by (simp add: check_render_info_compute_def keys_def)


end
